theory Spec2Isabelle
  imports Complex_Main "HOL-Library.Log_Nat"
begin

section \<open>Python string formatting used by the managers\<close>

text \<open>Decimal digits of a natural number, as \<^verbatim>\<open>str\<close> prints them.\<close>

definition digit_char :: "nat \<Rightarrow> char" where
  "digit_char d = ''0123456789'' ! d"

fun str_nat :: "nat \<Rightarrow> string" where
  "str_nat n = (if n < 10 then [digit_char n] else str_nat (n div 10) @ [digit_char (n mod 10)])"

declare str_nat.simps [simp del]

text \<open>\<^verbatim>\<open>str(i)\<close> and the \<^verbatim>\<open>{i}\<close> of an f-string, for a Python int.\<close>

definition str_int :: "int \<Rightarrow> string" where
  "str_int i = (if i < 0 then CHR ''-'' # str_nat (nat (- i)) else str_nat (nat i))"

text \<open>Left padding with zeros to a minimal width; a longer string is kept whole.\<close>

definition zfill :: "nat \<Rightarrow> string \<Rightarrow> string" where
  "zfill width s = replicate (width - length s) CHR ''0'' @ s"

text \<open>The format spec \<^verbatim>\<open>{i:04d}\<close>: the sign counts towards the width and the
  zeros go between the sign and the digits.\<close>

definition format_04d :: "int \<Rightarrow> string" where
  "format_04d i = (if i < 0 then CHR ''-'' # zfill 3 (str_nat (nat (- i))) else zfill 4 (str_nat (nat i)))"

text \<open>A reading of \<^verbatim>\<open>datetime.now()\<close>, or of the database server's clock.\<close>

record datetime =
  year :: nat
  month :: nat
  day :: nat
  hour :: nat
  minute :: nat
  second :: nat

text \<open>\<^verbatim>\<open>strftime("%Y%m%d")\<close> and \<^verbatim>\<open>strftime("%H%M%S")\<close>: zero-padded decimal fields
  (four digits for the year, as Python documents it).\<close>

definition strftime_Ymd :: "datetime \<Rightarrow> string" where
  "strftime_Ymd t = zfill 4 (str_nat (year t)) @ zfill 2 (str_nat (month t)) @ zfill 2 (str_nat (day t))"

definition strftime_HMS :: "datetime \<Rightarrow> string" where
  "strftime_HMS t = zfill 2 (str_nat (hour t)) @ zfill 2 (str_nat (minute t)) @ zfill 2 (str_nat (second t))"

text \<open>SQL \<^verbatim>\<open>DATE(x)\<close>: the calendar date of a timestamp.\<close>

definition sql_DATE :: "datetime \<Rightarrow> nat \<times> nat \<times> nat" where
  "sql_DATE t = (year t, month t, day t)"

section \<open>Python floats\<close>

text \<open>
  Prices and totals are Python floats: IEEE 754 binary64 values. A finite value is the
  real number it denotes (the two zeros are one value, as they are for \<^verbatim>\<open>==\<close>); the
  infinities and the NaN are values of their own. Every arithmetic operation computes
  the exact result and rounds it to the nearest representable value, ties to the even
  significand, with gradual underflow and overflow to an infinity.
\<close>

datatype double = Finite real | PosInf | NegInf | NaN

definition pow2 :: "int \<Rightarrow> real" where
  "pow2 e = (if 0 \<le> e then 2 ^ nat e else 1 / 2 ^ nat (- e))"

text \<open>For \<open>0 < x\<close>, the exponent \<open>e\<close> with \<open>2\<^sup>e \<le> x < 2\<^sup>e\<^sup>+\<^sup>1\<close>.\<close>

definition ilog2 :: "real \<Rightarrow> int" where
  "ilog2 x = (if 1 \<le> x then bitlen \<lfloor>x\<rfloor> - 1 else - bitlen (\<lceil>1 / x\<rceil> - 1))"

definition round_half_even :: "real \<Rightarrow> int" where
  "round_half_even z =
     (let f = \<lfloor>z\<rfloor>; r = z - of_int f
      in if r < 1 / 2 then f else if 1 / 2 < r then f + 1 else if even f then f else f + 1)"

text \<open>The exponent of the unit in the last place at \<open>x\<close>: 53 significant bits, and
  never below the subnormal spacing \<open>2\<^sup>-\<^sup>1\<^sup>0\<^sup>7\<^sup>4\<close>.\<close>

definition quantum_exp :: "real \<Rightarrow> int" where
  "quantum_exp x = max (ilog2 \<bar>x\<bar> - 52) (- 1074)"

definition rnd64 :: "real \<Rightarrow> real" where
  "rnd64 x =
     (if x = 0 then 0
      else of_int (round_half_even (x / pow2 (quantum_exp x))) * pow2 (quantum_exp x))"

definition to_double :: "real \<Rightarrow> double" where
  "to_double x =
     (let r = rnd64 x
      in if pow2 1024 \<le> r then PosInf else if r \<le> - pow2 1024 then NegInf else Finite r)"

text \<open>A real number is a Python float when rounding leaves it alone and it is in range.\<close>

definition is_float :: "real \<Rightarrow> bool" where
  "is_float x \<longleftrightarrow> to_double x = Finite x"

fun float_add :: "double \<Rightarrow> double \<Rightarrow> double" where
  "float_add NaN _ = NaN"
| "float_add _ NaN = NaN"
| "float_add PosInf NegInf = NaN"
| "float_add NegInf PosInf = NaN"
| "float_add PosInf _ = PosInf"
| "float_add _ PosInf = PosInf"
| "float_add NegInf _ = NegInf"
| "float_add _ NegInf = NegInf"
| "float_add (Finite a) (Finite b) = to_double (a + b)"

fun float_neg :: "double \<Rightarrow> double" where
  "float_neg (Finite a) = Finite (- a)"
| "float_neg PosInf = NegInf"
| "float_neg NegInf = PosInf"
| "float_neg NaN = NaN"

definition float_sub :: "double \<Rightarrow> double \<Rightarrow> double" where
  "float_sub x y = float_add x (float_neg y)"

fun float_mul :: "double \<Rightarrow> double \<Rightarrow> double" where
  "float_mul NaN _ = NaN"
| "float_mul _ NaN = NaN"
| "float_mul (Finite a) (Finite b) = to_double (a * b)"
| "float_mul (Finite a) PosInf = (if a = 0 then NaN else if 0 < a then PosInf else NegInf)"
| "float_mul (Finite a) NegInf = (if a = 0 then NaN else if 0 < a then NegInf else PosInf)"
| "float_mul PosInf (Finite b) = (if b = 0 then NaN else if 0 < b then PosInf else NegInf)"
| "float_mul NegInf (Finite b) = (if b = 0 then NaN else if 0 < b then NegInf else PosInf)"
| "float_mul PosInf PosInf = PosInf"
| "float_mul NegInf NegInf = PosInf"
| "float_mul PosInf NegInf = NegInf"
| "float_mul NegInf PosInf = NegInf"

text \<open>\<^verbatim>\<open>x / c\<close> for a positive int literal \<open>c\<close>, which Python converts to a float first
  (exactly, for a literal such as \<^verbatim>\<open>100\<close>).\<close>

fun float_div_literal :: "double \<Rightarrow> nat \<Rightarrow> double" where
  "float_div_literal (Finite a) c = to_double (a / of_nat c)"
| "float_div_literal x c = x"

text \<open>The comparisons \<^verbatim>\<open><\<close> and \<^verbatim>\<open><=\<close>; a NaN compares false with everything.\<close>

fun float_le :: "double \<Rightarrow> double \<Rightarrow> bool" where
  "float_le NaN _ = False"
| "float_le _ NaN = False"
| "float_le NegInf _ = True"
| "float_le _ PosInf = True"
| "float_le (Finite a) (Finite b) = (a \<le> b)"
| "float_le _ _ = False"


text \<open>
  \<^verbatim>\<open>round(x, 2)\<close>: the exact value of the float is rounded to two decimal places, a
  tie going to the even last digit, and the decimal result is converted back to the
  nearest float. Infinities and NaN round to themselves.
\<close>

fun py_round2 :: "double \<Rightarrow> double" where
  "py_round2 (Finite a) = to_double (of_int (round_half_even (a * 100)) / 100)"
| "py_round2 x = x"

text \<open>A float literal of the source, written as the decimal fraction it spells.\<close>

definition float_literal :: "real \<Rightarrow> double" where
  "float_literal q = to_double q"

text \<open>\<^verbatim>\<open>float(i)\<close> as the arithmetic applies it to an int operand: the nearest float, or
  \<^verbatim>\<open>OverflowError\<close> (here \<open>None\<close>) when the int is too large.\<close>

definition float_of_int :: "int \<Rightarrow> double option" where
  "float_of_int i = (case to_double (of_int i) of Finite r \<Rightarrow> Some (Finite r) | _ \<Rightarrow> None)"

text \<open>The absolute value \<^verbatim>\<open>fabs\<close>.\<close>

fun float_abs :: "double \<Rightarrow> double" where
  "float_abs (Finite a) = Finite \<bar>a\<bar>"
| "float_abs PosInf = PosInf"
| "float_abs NegInf = PosInf"
| "float_abs NaN = NaN"

text \<open>
  The builtin \<^verbatim>\<open>sum\<close> belongs to the interpreter, and its float loop changed with
  CPython 3.12: up to 3.11 the items are added from left to right, each addition
  rounded; from 3.12 on the loop also carries Neumaier's compensation term, which is
  added at the end when it is finite and not zero. The interpreter is a parameter of
  everything that sums.
\<close>

datatype cpython = CPython_upto_3_11 | CPython_from_3_12

text \<open>The float loop of \<^verbatim>\<open>sum\<close> from 3.12 on: the running sum \<open>f\<close>, the compensation
  \<open>c\<close>, and the items still to add.\<close>

fun compensated_sum :: "double \<Rightarrow> double \<Rightarrow> double list \<Rightarrow> double" where
  "compensated_sum f c [] =
     (case c of Finite v \<Rightarrow> (if v \<noteq> 0 then float_add f c else f) | _ \<Rightarrow> f)"
| "compensated_sum f c (x # xs) =
     (let t = float_add f x;
          c' = (if float_le (float_abs x) (float_abs f)
                then float_add c (float_add (float_sub f t) x)
                else float_add c (float_add (float_sub x t) f))
      in compensated_sum t c' xs)"

text \<open>
  \<^verbatim>\<open>sum(xs)\<close> over floats. The start value is the int \<^verbatim>\<open>0\<close>, so the empty sum is
  zero and the first item is added to it as a float before the float loop starts.
\<close>

definition py_sum :: "cpython \<Rightarrow> double list \<Rightarrow> double" where
  "py_sum py xs =
     (case py of
        CPython_upto_3_11 \<Rightarrow> foldl float_add (Finite 0) xs
      | CPython_from_3_12 \<Rightarrow>
          (case xs of
             [] \<Rightarrow> Finite 0
           | x # rest \<Rightarrow> compensated_sum (float_add (Finite 0) x) (Finite 0) rest))"

section \<open>Configuration (\<^verbatim>\<open>config.py\<close>)\<close>

text \<open>\<^verbatim>\<open>BUSINESS_CONFIG\<close>; the currency symbol is given by the UTF-8 bytes of the
  source file.\<close>

record business_config =
  tax_rate :: double
  currency_symbol :: string
  discount_max :: double
  low_stock_threshold :: int

definition BUSINESS_CONFIG :: business_config where
  "BUSINESS_CONFIG =
     \<lparr>tax_rate = float_literal (12 / 100),
      currency_symbol = [CHR 0xC3, CHR 0xA2, CHR 0xE2, CHR 0x80, CHR 0x9A, CHR 0xC2, CHR 0xB1],
      discount_max = float_literal (50 / 100),
      low_stock_threshold = 10\<rparr>"

section \<open>The cart and the totals calculator (\<^verbatim>\<open>modules/sales.py\<close>)\<close>

record cart_item =
  product_id :: int
  product_name :: string
  barcode :: string
  unit_price :: double
  quantity :: int
  subtotal :: double

text \<open>\<^verbatim>\<open>CartItem.__init__\<close>: the line subtotal is \<^verbatim>\<open>unit_price * quantity\<close>, computed once
  when the item is built. \<open>None\<close> is the \<^verbatim>\<open>OverflowError\<close> of the int operand.\<close>

definition CartItem :: "int \<Rightarrow> string \<Rightarrow> string \<Rightarrow> double \<Rightarrow> int \<Rightarrow> cart_item option" where
  "CartItem pid name code price qty =
     (case float_of_int qty of
        None \<Rightarrow> None
      | Some q \<Rightarrow>
          Some \<lparr>product_id = pid, product_name = name, barcode = code, unit_price = price,
                quantity = qty, subtotal = float_mul price q\<rparr>)"

text \<open>The dictionary \<^verbatim>\<open>calculate_totals\<close> returns, one field per key.\<close>

record totals =
  t_subtotal :: double
  t_discount_percent :: double
  t_discount_amount :: double
  t_tax_amount :: double
  t_total_amount :: double

text \<open>\<^verbatim>\<open>SalesManager.calculate_totals\<close>. The interpreter whose \<^verbatim>\<open>sum\<close> it calls and the
  module-level \<^verbatim>\<open>config.BUSINESS_CONFIG\<close> it reads are the first two arguments.\<close>

definition calculate_totals :: "cpython \<Rightarrow> business_config \<Rightarrow> cart_item list \<Rightarrow> double \<Rightarrow> totals" where
  "calculate_totals py cfg cart_items discount_percent =
     (let sub = py_sum py (map subtotal cart_items);
          discount_amount = float_mul sub (float_div_literal discount_percent 100);
          amount_after_discount = float_sub sub discount_amount;
          tax_amount = float_mul amount_after_discount (tax_rate cfg);
          total_amount = float_add amount_after_discount tax_amount
      in \<lparr>t_subtotal = py_round2 sub,
          t_discount_percent = discount_percent,
          t_discount_amount = py_round2 discount_amount,
          t_tax_amount = py_round2 tax_amount,
          t_total_amount = py_round2 total_amount\<rparr>)"

section \<open>The persistent store and the database wrapper\<close>

text \<open>
  Modelled from the spec: the schema of the database is not among the sources. The
  tables are \<open>products\<close>, \<open>inventory_transactions\<close>, \<open>sales\<close> and \<open>sale_items\<close>
  (specification, section 6), with the columns that the SQL statements of the managers
  name. A product row keeps the columns the stock ledger reads or writes; the ledger,
  sale and sale-item tables are lists in insertion order. The timestamp of a ledger row
  and of a sale (section 3) is the server's time at the insert, and a sale's id comes
  from a counter of the table. Column values are Python ints (unbounded), floats,
  strings, or \<^verbatim>\<open>None\<close> for an omitted optional argument.
\<close>

record product =
  p_product_name :: string
  stock_quantity :: int

record inventory_transaction =
  txn_product_id :: int
  txn_transaction_type :: string
  txn_quantity_change :: int
  txn_previous_stock :: int
  txn_new_stock :: int
  txn_reference_id :: "int option"
  txn_notes :: "string option"
  txn_user_id :: "int option"
  txn_transaction_date :: datetime

record sale =
  s_sale_id :: int
  s_sale_number :: string
  s_customer_name :: "string option"
  s_customer_phone :: "string option"
  s_subtotal :: double
  s_tax_amount :: double
  s_discount_amount :: double
  s_total_amount :: double
  s_payment_method :: string
  s_cashier_id :: "int option"
  s_sale_date :: datetime

record sale_item =
  si_sale_id :: "int option"
  si_product_id :: int
  si_quantity :: int
  si_unit_price :: double
  si_subtotal :: double

text \<open>
  A failure of the driver: \<^verbatim>\<open>get_connection\<close> raises when the pool gives no connection,
  the cursor or the commit raises otherwise. The string is \<^verbatim>\<open>str(e)\<close>.
\<close>

datatype db_fault = PoolFault string | QueryFault string

text \<open>
  The state the code runs in: the four tables and the counter that numbers the sales,
  the lines printed so far, and the environment. \<open>fault_at k\<close> tells whether the
  \<open>k\<close>-th call of the wrapper raises, \<open>db_clock k\<close> is the server's clock during that
  call, and \<open>clock_at k\<close> is what the \<open>k\<close>-th \<^verbatim>\<open>datetime.now()\<close> returns.
\<close>

record world =
  products :: "int \<rightharpoonup> product"
  inventory_transactions :: "inventory_transaction list"
  sales :: "sale list"
  sale_items :: "sale_item list"
  sales_auto_increment :: int
  stdout :: "string list"
  db_calls :: nat
  fault_at :: "nat \<Rightarrow> db_fault option"
  db_clock :: "nat \<Rightarrow> datetime"
  clock_reads :: nat
  clock_at :: "nat \<Rightarrow> datetime"

definition py_print :: "string \<Rightarrow> world \<Rightarrow> world" where
  "py_print line w = w\<lparr>stdout := stdout w @ [line]\<rparr>"

definition datetime_now :: "world \<Rightarrow> datetime \<times> world" where
  "datetime_now w = (clock_at w (clock_reads w), w\<lparr>clock_reads := Suc (clock_reads w)\<rparr>)"

text \<open>The server's clock during the call that is about to run.\<close>

definition db_now :: "world \<Rightarrow> datetime" where
  "db_now w = db_clock w (db_calls w)"

text \<open>
  \<^verbatim>\<open>DatabaseConnection.execute_query\<close> with \<^verbatim>\<open>fetch=False\<close>. The statement is given by its
  effect on the store and the \<^verbatim>\<open>lastrowid\<close> it leaves. A raised error (\<open>Inl\<close>) is
  rolled back, so the tables stay as they were; the wrapper prints and re-raises. The
  result is \<^verbatim>\<open>cursor.lastrowid if cursor.lastrowid else None\<close>.
\<close>

definition execute_query :: "(world \<Rightarrow> int \<times> world) \<Rightarrow> world \<Rightarrow> (string + int option) \<times> world" where
  "execute_query stmt w =
     (case fault_at w (db_calls w) of
        Some (PoolFault e) \<Rightarrow>
          (Inl e, py_print (''Database error: '' @ e)
                    (py_print (''Error getting connection from pool: '' @ e)
                      (w\<lparr>db_calls := Suc (db_calls w)\<rparr>)))
      | Some (QueryFault e) \<Rightarrow>
          (Inl e, py_print (''Database error: '' @ e) (w\<lparr>db_calls := Suc (db_calls w)\<rparr>))
      | None \<Rightarrow>
          (case stmt w of (lastrowid, w') \<Rightarrow>
             (Inr (if lastrowid \<noteq> 0 then Some lastrowid else None),
              w'\<lparr>db_calls := Suc (db_calls w)\<rparr>)))"

text \<open>\<^verbatim>\<open>DatabaseConnection.fetch_one\<close>: the first row of the query, or \<^verbatim>\<open>None\<close>.\<close>

definition fetch_one :: "(world \<Rightarrow> 'row option) \<Rightarrow> world \<Rightarrow> (string + 'row option) \<times> world" where
  "fetch_one query w =
     (case fault_at w (db_calls w) of
        Some (PoolFault e) \<Rightarrow>
          (Inl e, py_print (''Database error in fetch_one: '' @ e)
                    (py_print (''Error getting connection from pool: '' @ e)
                      (w\<lparr>db_calls := Suc (db_calls w)\<rparr>)))
      | Some (QueryFault e) \<Rightarrow>
          (Inl e, py_print (''Database error in fetch_one: '' @ e)
                    (w\<lparr>db_calls := Suc (db_calls w)\<rparr>))
      | None \<Rightarrow> (Inr (query w), w\<lparr>db_calls := Suc (db_calls w)\<rparr>))"

subsection \<open>The SQL statements of the two managers\<close>

text \<open>\<^verbatim>\<open>SELECT stock_quantity FROM products WHERE product_id = %s\<close>\<close>

definition select_stock_quantity :: "int \<Rightarrow> world \<Rightarrow> int option" where
  "select_stock_quantity pid w = map_option stock_quantity (products w pid)"

text \<open>\<^verbatim>\<open>UPDATE products SET stock_quantity = %s WHERE product_id = %s\<close>\<close>

definition update_stock_quantity :: "int \<Rightarrow> int \<Rightarrow> world \<Rightarrow> int \<times> world" where
  "update_stock_quantity new_stock pid w =
     (0, case products w pid of
           None \<Rightarrow> w
         | Some p \<Rightarrow> w\<lparr>products := (products w)(pid \<mapsto> p\<lparr>stock_quantity := new_stock\<rparr>)\<rparr>)"

text \<open>\<^verbatim>\<open>INSERT INTO inventory_transactions (product_id, transaction_type, quantity_change,
  previous_stock, new_stock, reference_id, notes, user_id) VALUES (...)\<close>. The row's date
  is the column default, the server's current time.\<close>

definition insert_inventory_transaction ::
  "int \<Rightarrow> string \<Rightarrow> int \<Rightarrow> int \<Rightarrow> int \<Rightarrow> int option \<Rightarrow> string option \<Rightarrow> int option \<Rightarrow> world \<Rightarrow> int \<times> world" where
  "insert_inventory_transaction pid kind change previous new ref note user w =
     (int (length (inventory_transactions w)) + 1,
      w\<lparr>inventory_transactions := inventory_transactions w @
          [\<lparr>txn_product_id = pid, txn_transaction_type = kind, txn_quantity_change = change,
            txn_previous_stock = previous, txn_new_stock = new, txn_reference_id = ref,
            txn_notes = note, txn_user_id = user, txn_transaction_date = db_now w\<rparr>]\<rparr>)"

text \<open>\<^verbatim>\<open>SELECT COUNT(*) FROM sales WHERE DATE(sale_date) = CURDATE()\<close>: always one row.\<close>

definition count_sales_today :: "world \<Rightarrow> int option" where
  "count_sales_today w =
     Some (int (length (filter (\<lambda>s. sql_DATE (s_sale_date s) = sql_DATE (db_now w)) (sales w))))"

text \<open>\<^verbatim>\<open>INSERT INTO sales (sale_number, customer_name, customer_phone, subtotal, tax_amount,
  discount_amount, total_amount, payment_method, cashier_id) VALUES (...)\<close>. The id comes
  from the table's counter and the date is the server's current time.\<close>

definition insert_sale ::
  "string \<Rightarrow> string option \<Rightarrow> string option \<Rightarrow> double \<Rightarrow> double \<Rightarrow> double \<Rightarrow> double \<Rightarrow> string \<Rightarrow> int option \<Rightarrow> world \<Rightarrow> int \<times> world" where
  "insert_sale number cname cphone sub tax discount total_amount method cashier w =
     (sales_auto_increment w,
      w\<lparr>sales := sales w @
          [\<lparr>s_sale_id = sales_auto_increment w, s_sale_number = number, s_customer_name = cname,
            s_customer_phone = cphone, s_subtotal = sub, s_tax_amount = tax,
            s_discount_amount = discount, s_total_amount = total_amount, s_payment_method = method,
            s_cashier_id = cashier, s_sale_date = db_now w\<rparr>],
         sales_auto_increment := sales_auto_increment w + 1\<rparr>)"

text \<open>\<^verbatim>\<open>INSERT INTO sale_items (sale_id, product_id, quantity, unit_price, subtotal)
  VALUES (...)\<close>\<close>

definition insert_sale_item :: "int option \<Rightarrow> int \<Rightarrow> int \<Rightarrow> double \<Rightarrow> double \<Rightarrow> world \<Rightarrow> int \<times> world" where
  "insert_sale_item sid pid qty price sub w =
     (int (length (sale_items w)) + 1,
      w\<lparr>sale_items := sale_items w @
          [\<lparr>si_sale_id = sid, si_product_id = pid, si_quantity = qty, si_unit_price = price,
            si_subtotal = sub\<rparr>]\<rparr>)"

section \<open>The stock ledger (\<^verbatim>\<open>modules/inventory.py\<close>)\<close>

text \<open>\<^verbatim>\<open>InventoryManager.update_stock\<close>. Every exception inside the \<^verbatim>\<open>try\<close> ends in the
  handler, which prints and returns \<^verbatim>\<open>False\<close>.\<close>

definition update_stock ::
  "int \<Rightarrow> int \<Rightarrow> string \<Rightarrow> int option \<Rightarrow> int option \<Rightarrow> string option \<Rightarrow> world \<Rightarrow> bool \<times> world" where
  "update_stock pid quantity_change transaction_type user_id reference_id notes w =
     (case fetch_one (select_stock_quantity pid) w of
        (Inl e, w1) \<Rightarrow> (False, py_print (''Error updating stock: '' @ e) w1)
      | (Inr None, w1) \<Rightarrow> (False, py_print (''Product '' @ str_int pid @ '' not found'') w1)
      | (Inr (Some previous_stock), w1) \<Rightarrow>
          (let new_stock = previous_stock + quantity_change
           in if new_stock < 0
              then (False, py_print (''Insufficient stock. Available: '' @ str_int previous_stock) w1)
              else (case execute_query (update_stock_quantity new_stock pid) w1 of
                      (Inl e, w2) \<Rightarrow> (False, py_print (''Error updating stock: '' @ e) w2)
                    | (Inr _, w2) \<Rightarrow>
                        (case execute_query
                                (insert_inventory_transaction pid transaction_type quantity_change
                                   previous_stock new_stock reference_id notes user_id) w2 of
                           (Inl e, w3) \<Rightarrow> (False, py_print (''Error updating stock: '' @ e) w3)
                         | (Inr _, w3) \<Rightarrow> (True, w3)))))"

text \<open>\<^verbatim>\<open>InventoryManager.restock_product\<close>\<close>

definition restock_product :: "int \<Rightarrow> int \<Rightarrow> int option \<Rightarrow> string option \<Rightarrow> world \<Rightarrow> bool \<times> world" where
  "restock_product pid qty user_id notes w = update_stock pid qty ''restock'' user_id None notes w"

text \<open>\<^verbatim>\<open>InventoryManager.adjust_stock\<close>. Its own read of the stock is outside any
  \<^verbatim>\<open>try\<close>: an error there leaves the function as an exception (\<open>Inl\<close>).\<close>

definition adjust_stock :: "int \<Rightarrow> int \<Rightarrow> int option \<Rightarrow> string option \<Rightarrow> world \<Rightarrow> (string + bool) \<times> world" where
  "adjust_stock pid new_quantity user_id notes w =
     (case fetch_one (select_stock_quantity pid) w of
        (Inl e, w1) \<Rightarrow> (Inl e, w1)
      | (Inr None, w1) \<Rightarrow> (Inr False, w1)
      | (Inr (Some current_stock), w1) \<Rightarrow>
          (case update_stock pid (new_quantity - current_stock) ''adjustment'' user_id None notes w1 of
             (ok, w2) \<Rightarrow> (Inr ok, w2)))"

text \<open>\<^verbatim>\<open>InventoryManager.check_stock_availability\<close>\<close>

definition check_stock_availability :: "int \<Rightarrow> int \<Rightarrow> world \<Rightarrow> bool \<times> world" where
  "check_stock_availability pid required_quantity w =
     (case fetch_one (select_stock_quantity pid) w of
        (Inl e, w1) \<Rightarrow> (False, py_print (''Error checking stock: '' @ e) w1)
      | (Inr None, w1) \<Rightarrow> (False, w1)
      | (Inr (Some stock), w1) \<Rightarrow> (required_quantity \<le> stock, w1))"

section \<open>The sale processor (\<^verbatim>\<open>modules/sales.py\<close>)\<close>

text \<open>\<^verbatim>\<open>SalesManager.generate_sale_number\<close>\<close>

definition generate_sale_number :: "world \<Rightarrow> string \<times> world" where
  "generate_sale_number w =
     (case datetime_now w of (t, w1) \<Rightarrow>
        (let date_str = strftime_Ymd t
         in case fetch_one count_sales_today w1 of
              (Inr result, w2) \<Rightarrow>
                (let count = (case result of Some c \<Rightarrow> c | None \<Rightarrow> 0)
                 in (''SALE-'' @ date_str @ ''-'' @ format_04d (count + 1), w2))
            | (Inl e, w2) \<Rightarrow>
                (case datetime_now (py_print (''Error generating sale number: '' @ e) w2) of
                   (t', w3) \<Rightarrow> (''SALE-'' @ date_str @ ''-'' @ strftime_HMS t', w3))))"

text \<open>The availability loop of \<^verbatim>\<open>process_sale\<close>: the first line whose check fails, if
  there is one.\<close>

fun check_cart :: "cart_item list \<Rightarrow> world \<Rightarrow> cart_item option \<times> world" where
  "check_cart [] w = (None, w)"
| "check_cart (item # rest) w =
     (case check_stock_availability (product_id item) (quantity item) w of
        (False, w1) \<Rightarrow> (Some item, w1)
      | (True, w1) \<Rightarrow> check_cart rest w1)"

text \<open>The loop over the cart after the header is stored: each line's row, then the
  ledger update, whose boolean result the caller drops. \<open>Some e\<close> is an exception that
  leaves the loop.\<close>

fun persist_lines :: "int option \<Rightarrow> string \<Rightarrow> int option \<Rightarrow> cart_item list \<Rightarrow> world \<Rightarrow> string option \<times> world" where
  "persist_lines sale_id sale_number cashier_id [] w = (None, w)"
| "persist_lines sale_id sale_number cashier_id (item # rest) w =
     (case execute_query
             (insert_sale_item sale_id (product_id item) (quantity item) (unit_price item)
                (subtotal item)) w of
        (Inl e, w1) \<Rightarrow> (Some e, w1)
      | (Inr _, w1) \<Rightarrow>
          (case update_stock (product_id item) (- quantity item) ''sale'' cashier_id sale_id
                  (Some (''Sale: '' @ sale_number)) w1 of
             (_, w2) \<Rightarrow> persist_lines sale_id sale_number cashier_id rest w2))"

text \<open>\<^verbatim>\<open>SalesManager.process_sale\<close>: the sale id, or \<^verbatim>\<open>None\<close>.\<close>

definition process_sale ::
  "cpython \<Rightarrow> business_config \<Rightarrow> cart_item list \<Rightarrow> string option \<Rightarrow> string option \<Rightarrow> double \<Rightarrow> string \<Rightarrow> int option \<Rightarrow> world \<Rightarrow> int option \<times> world" where
  "process_sale py cfg cart_items customer_name customer_phone discount_percent payment_method cashier_id w =
     (if cart_items = [] then (None, py_print ''Cart is empty'' w)
      else (case check_cart cart_items w of
              (Some item, w1) \<Rightarrow> (None, py_print (''Insufficient stock for '' @ product_name item) w1)
            | (None, w1) \<Rightarrow>
                (let tot = calculate_totals py cfg cart_items discount_percent
                 in case generate_sale_number w1 of (sale_number, w2) \<Rightarrow>
                      (case execute_query
                              (insert_sale sale_number customer_name customer_phone (t_subtotal tot)
                                 (t_tax_amount tot) (t_discount_amount tot) (t_total_amount tot)
                                 payment_method cashier_id) w2 of
                         (Inl e, w3) \<Rightarrow> (None, py_print (''Error processing sale: '' @ e) w3)
                       | (Inr sale_id, w3) \<Rightarrow>
                           (case persist_lines sale_id sale_number cashier_id cart_items w3 of
                              (Some e, w4) \<Rightarrow> (None, py_print (''Error processing sale: '' @ e) w4)
                            | (None, w4) \<Rightarrow> (sale_id, w4))))))"

section \<open>Example states\<close>

definition new_year_morning :: datetime where
  "new_year_morning = \<lparr>year = 2025, month = 1, day = 1, hour = 9, minute = 30, second = 5\<rparr>"

text \<open>A shop with two products, no sale yet, a healthy database and a clock that
  stands still.\<close>

definition small_shop :: world where
  "small_shop =
     \<lparr>products = [1 \<mapsto> \<lparr>p_product_name = ''Rice'', stock_quantity = 5\<rparr>,
                  2 \<mapsto> \<lparr>p_product_name = ''Milk'', stock_quantity = 2\<rparr>],
      inventory_transactions = [],
      sales = [],
      sale_items = [],
      sales_auto_increment = 1,
      stdout = [],
      db_calls = 0,
      fault_at = (\<lambda>k. None),
      db_clock = (\<lambda>k. new_year_morning),
      clock_reads = 0,
      clock_at = (\<lambda>k. new_year_morning)\<rparr>"

text \<open>Cart lines as \<open>CartItem\<close> builds them: two units of rice at 10.00, one and three
  units of milk at 5.00, and a line for a product id that no row carries.\<close>

definition two_rice :: cart_item where
  "two_rice = \<lparr>product_id = 1, product_name = ''Rice'', barcode = ''4800011'',
     unit_price = Finite 10, quantity = 2, subtotal = Finite 20\<rparr>"

definition one_milk :: cart_item where
  "one_milk = \<lparr>product_id = 2, product_name = ''Milk'', barcode = ''4800012'',
     unit_price = Finite 5, quantity = 1, subtotal = Finite 5\<rparr>"

definition three_milk :: cart_item where
  "three_milk = \<lparr>product_id = 2, product_name = ''Milk'', barcode = ''4800012'',
     unit_price = Finite 5, quantity = 3, subtotal = Finite 15\<rparr>"

definition ghost_line :: cart_item where
  "ghost_line = \<lparr>product_id = 99, product_name = ''Ghost'', barcode = ''0000000'',
     unit_price = Finite 1, quantity = 1, subtotal = Finite 1\<rparr>"

text \<open>The same shop when the seventh call of the wrapper raises: in a sale of one
  line that is the insert into the ledger.\<close>

definition ledger_insert_fails :: world where
  "ledger_insert_fails =
     small_shop\<lparr>fault_at := (\<lambda>k. if k = 6 then Some (QueryFault ''Lock wait timeout exceeded'') else None)\<rparr>"

text \<open>The same shop when the fourth call raises: the insert of the first sale item.\<close>

definition item_insert_fails :: world where
  "item_insert_fails =
     small_shop\<lparr>fault_at := (\<lambda>k. if k = 3 then Some (QueryFault ''Lock wait timeout exceeded'') else None)\<rparr>"

text \<open>The same shop when the database is away: every call raises.\<close>

definition database_away :: world where
  "database_away = small_shop\<lparr>fault_at := (\<lambda>k. Some (QueryFault ''MySQL server has gone away''))\<rparr>"

text \<open>A value of the model that is a Python float: a finite one is representable.\<close>

definition valid_double :: "double \<Rightarrow> bool" where
  "valid_double d = (case d of Finite a \<Rightarrow> is_float a | _ \<Rightarrow> True)"

text \<open>A loaf of bread at 12.50, one unit.\<close>

definition bread_line :: cart_item where
  "bread_line = \<lparr>product_id = 3, product_name = ''Bread'', barcode = ''4800013'',
     unit_price = Finite (25 / 2), quantity = 1, subtotal = Finite (25 / 2)\<rparr>"

section \<open>The calculator as the specification words it\<close>

text \<open>
  The specification's "standard rounding" to two decimal places, read as the schoolbook
  rule: the nearest value, a tie going away from zero.
\<close>

definition spec_standard_round2 :: "double \<Rightarrow> double" where
  "spec_standard_round2 x =
     (case x of
        Finite a \<Rightarrow>
          to_double (of_int (if 0 \<le> a then \<lfloor>a * 100 + 1 / 2\<rfloor> else - \<lfloor>- a * 100 + 1 / 2\<rfloor>) / 100)
      | _ \<Rightarrow> x)"

text \<open>
  The specification's formulas, in the same float arithmetic: subtotal as the sum of
  unit price times quantity, discount as subtotal times percent over 100, tax on the
  discounted amount, and every output rounded by the rule above.
\<close>

definition spec_calculate_totals :: "cpython \<Rightarrow> business_config \<Rightarrow> cart_item list \<Rightarrow> double \<Rightarrow> totals" where
  "spec_calculate_totals py cfg cart_items discount_percent =
     (let sub = py_sum py (map (\<lambda>item. float_mul (unit_price item) (to_double (of_int (quantity item)))) cart_items);
          discount_amount = float_mul sub (float_div_literal discount_percent 100);
          taxable_amount = float_sub sub discount_amount;
          tax_amount = float_mul taxable_amount (tax_rate cfg);
          total = float_add taxable_amount tax_amount
      in \<lparr>t_subtotal = spec_standard_round2 sub,
          t_discount_percent = discount_percent,
          t_discount_amount = spec_standard_round2 discount_amount,
          t_tax_amount = spec_standard_round2 tax_amount,
          t_total_amount = spec_standard_round2 total\<rparr>)"

section \<open>A shop with sales of other days\<close>

definition march_afternoon :: datetime where
  "march_afternoon = \<lparr>year = 2025, month = 3, day = 7, hour = 14, minute = 5, second = 9\<rparr>"

text \<open>A stored sale of 20.00 with the given id, number and date.\<close>

definition stored_sale :: "int \<Rightarrow> string \<Rightarrow> datetime \<Rightarrow> sale" where
  "stored_sale i number t =
     \<lparr>s_sale_id = i, s_sale_number = number, s_customer_name = None, s_customer_phone = None,
      s_subtotal = Finite 20, s_tax_amount = Finite 0, s_discount_amount = Finite 0,
      s_total_amount = Finite 20, s_payment_method = ''cash'', s_cashier_id = Some 7,
      s_sale_date = t\<rparr>"

text \<open>The shop on 7 March 2025 with four earlier sales: of the day before, of 7
  February, of 7 March a year earlier, and of 3 July.\<close>

definition busy_shop :: world where
  "busy_shop =
     small_shop
       \<lparr>sales :=
          [stored_sale 1 ''SALE-20240307-0001'' (march_afternoon\<lparr>year := 2024\<rparr>),
           stored_sale 2 ''SALE-20250207-0001'' (march_afternoon\<lparr>month := 2\<rparr>),
           stored_sale 3 ''SALE-20250306-0001'' (march_afternoon\<lparr>day := 6\<rparr>),
           stored_sale 4 ''SALE-20250703-0001'' (march_afternoon\<lparr>month := 7, day := 3\<rparr>)],
        sales_auto_increment := 5,
        db_clock := (\<lambda>k. march_afternoon),
        clock_at := (\<lambda>k. march_afternoon)\<rparr>"

text \<open>Three small lines, one unit each: 0.05, 0.10 and 1.80.\<close>

definition candy_line :: cart_item where
  "candy_line = \<lparr>product_id = 4, product_name = ''Candy'', barcode = ''4800014'',
     unit_price = float_literal (5 / 100), quantity = 1, subtotal = float_literal (5 / 100)\<rparr>"

definition gum_line :: cart_item where
  "gum_line = \<lparr>product_id = 5, product_name = ''Gum'', barcode = ''4800015'',
     unit_price = float_literal (10 / 100), quantity = 1, subtotal = float_literal (10 / 100)\<rparr>"

definition soap_line :: cart_item where
  "soap_line = \<lparr>product_id = 6, product_name = ''Soap'', barcode = ''4800016'',
     unit_price = float_literal (180 / 100), quantity = 1, subtotal = float_literal (180 / 100)\<rparr>"


section \<open>The stock ledger: applying a change\<close>

lemmas db_defs = fetch_one_def execute_query_def select_stock_quantity_def
  update_stock_quantity_def insert_inventory_transaction_def py_print_def db_now_def

lemma update_stock_no_fault:
  assumes "products w P = Some p"
    and "0 \<le> stock_quantity p + d"
    and "fault_at w (db_calls w) = None"
    and "fault_at w (Suc (db_calls w)) = None"
    and "fault_at w (Suc (Suc (db_calls w))) = None"
  shows "update_stock P d kind user reference memo w =
    (True, w\<lparr>products := (products w)(P \<mapsto> p\<lparr>stock_quantity := stock_quantity p + d\<rparr>),
              inventory_transactions := inventory_transactions w @
                [\<lparr>txn_product_id = P, txn_transaction_type = kind, txn_quantity_change = d,
                  txn_previous_stock = stock_quantity p, txn_new_stock = stock_quantity p + d,
                  txn_reference_id = reference, txn_notes = memo, txn_user_id = user,
                  txn_transaction_date = db_clock w (Suc (Suc (db_calls w)))\<rparr>],
              db_calls := Suc (Suc (Suc (db_calls w)))\<rparr>)"
  using assms by (simp add: update_stock_def db_defs Let_def)

lemma update_stock_True:
  assumes "update_stock P d kind user reference memo w = (True, w')"
  shows "\<exists>p. products w P = Some p \<and> 0 \<le> stock_quantity p + d \<and>
     w' = w\<lparr>products := (products w)(P \<mapsto> p\<lparr>stock_quantity := stock_quantity p + d\<rparr>),
              inventory_transactions := inventory_transactions w @
                [\<lparr>txn_product_id = P, txn_transaction_type = kind, txn_quantity_change = d,
                  txn_previous_stock = stock_quantity p, txn_new_stock = stock_quantity p + d,
                  txn_reference_id = reference, txn_notes = memo, txn_user_id = user,
                  txn_transaction_date = db_clock w (Suc (Suc (db_calls w)))\<rparr>],
              db_calls := Suc (Suc (Suc (db_calls w)))\<rparr>"
  using assms
  by (auto simp: update_stock_def db_defs Let_def split: option.splits db_fault.splits if_splits)

text \<open>
  C1. When product \<open>P\<close> has stock \<open>s\<close>, \<open>0 \<le> s + d\<close>, and none of the three database
  calls of \<open>update_stock\<close> raises, the call returns \<open>True\<close>, the product's stock becomes
  \<open>s + d\<close> (no other product or column changes), and exactly one row is appended to the
  ledger, with previous stock \<open>s\<close>, new stock \<open>s + d\<close>, change \<open>d\<close> and the given kind,
  reference, note and user. Nothing is printed and the sale tables are untouched.
\<close>

theorem update_stock_applies_change:
  assumes "products w P = Some p"
    and "stock_quantity p = s"
    and "0 \<le> s + d"
    and "fault_at w (db_calls w) = None"
    and "fault_at w (Suc (db_calls w)) = None"
    and "fault_at w (Suc (Suc (db_calls w))) = None"
  shows "case update_stock P d kind user reference memo w of
           (ok, w') \<Rightarrow>
             ok = True \<and>
             products w' = (products w)(P \<mapsto> p\<lparr>stock_quantity := s + d\<rparr>) \<and>
             inventory_transactions w' = inventory_transactions w @
               [\<lparr>txn_product_id = P, txn_transaction_type = kind, txn_quantity_change = d,
                 txn_previous_stock = s, txn_new_stock = s + d, txn_reference_id = reference,
                 txn_notes = memo, txn_user_id = user,
                 txn_transaction_date = db_clock w (Suc (Suc (db_calls w)))\<rparr>] \<and>
             sales w' = sales w \<and> sale_items w' = sale_items w \<and> stdout w' = stdout w"
proof -
  from assms have "0 \<le> stock_quantity p + d" by simp
  from update_stock_no_fault [OF assms(1) this assms(4-6)] assms(2)
  show ?thesis by simp
qed

theorem update_stock_applies_change_witness:
  "case update_stock 1 (- 2) ''sale'' (Some 7) (Some 3) (Some ''Sale: SALE-20250101-0001'') small_shop of
     (ok, w') \<Rightarrow>
       ok = True \<and>
       products w' 1 = Some \<lparr>p_product_name = ''Rice'', stock_quantity = 3\<rparr> \<and>
       products w' 2 = products small_shop 2 \<and>
       inventory_transactions w' =
         [\<lparr>txn_product_id = 1, txn_transaction_type = ''sale'', txn_quantity_change = - 2,
           txn_previous_stock = 5, txn_new_stock = 3, txn_reference_id = Some 3,
           txn_notes = Some ''Sale: SALE-20250101-0001'', txn_user_id = Some 7,
           txn_transaction_date = new_year_morning\<rparr>]"
  using update_stock_applies_change [where w = small_shop and P = 1
      and p = "\<lparr>p_product_name = ''Rice'', stock_quantity = 5\<rparr>" and s = 5 and d = "- 2"
      and kind = "''sale''" and user = "Some 7" and reference = "Some 3"
      and memo = "Some ''Sale: SALE-20250101-0001''"]
  by (simp add: small_shop_def split: prod.splits)

text \<open>
  C2. When product \<open>P\<close> has stock \<open>s\<close> and \<open>s + d < 0\<close>, \<open>update_stock\<close> returns \<open>False\<close>
  and leaves the products, the ledger and the sale tables exactly as they were, whatever
  the database does; when the read of the stock does not raise, the line it prints is
  the insufficient-stock message with the available quantity \<open>s\<close>.
\<close>

theorem update_stock_insufficient:
  assumes "products w P = Some p"
    and "stock_quantity p = s"
    and "s + d < 0"
  shows "case update_stock P d kind user reference memo w of
           (ok, w') \<Rightarrow>
             ok = False \<and>
             products w' = products w \<and>
             inventory_transactions w' = inventory_transactions w \<and>
             sales w' = sales w \<and> sale_items w' = sale_items w \<and>
             (fault_at w (db_calls w) = None \<longrightarrow>
                stdout w' = stdout w @ [''Insufficient stock. Available: '' @ str_int s])"
  using assms
  by (auto simp: update_stock_def db_defs Let_def split: option.splits db_fault.splits)

theorem update_stock_insufficient_witness:
  "case update_stock 2 (- 3) ''sale'' None None None small_shop of
     (ok, w') \<Rightarrow>
       ok = False \<and>
       products w' = products small_shop \<and>
       inventory_transactions w' = [] \<and>
       stdout w' = [''Insufficient stock. Available: 2'']"
  using update_stock_insufficient [where w = small_shop and P = 2
      and p = "\<lparr>p_product_name = ''Milk'', stock_quantity = 2\<rparr>" and s = 2 and d = "- 3"
      and kind = "''sale''" and user = None and reference = None and memo = None]
  by (simp add: small_shop_def str_int_def str_nat.simps digit_char_def split: prod.splits)

section \<open>The stock ledger: adjusting to a target\<close>

lemma adjust_stock_True:
  assumes "adjust_stock P t user memo w = (Inr True, w')"
  shows "\<exists>p. products w' P = Some p \<and> stock_quantity p = t \<and> 0 \<le> t"
proof -
  from assms obtain cur w1 where
    f: "fetch_one (select_stock_quantity P) w = (Inr (Some cur), w1)" and
    u: "update_stock P (t - cur) ''adjustment'' user None memo w1 = (True, w')"
    by (auto simp: adjust_stock_def split: prod.splits sum.splits option.splits)
  from f have "products w1 = products w" and "map_option stock_quantity (products w P) = Some cur"
    by (auto simp: db_defs split: option.splits db_fault.splits)
  with update_stock_True [OF u] show ?thesis by auto
qed

text \<open>
  C8. After \<open>adjust_stock P t\<close> has succeeded, a second \<open>adjust_stock P t\<close> whose four
  database calls do not raise succeeds as well, with a change of zero: the product table
  is unchanged, the stock of \<open>P\<close> is still \<open>t\<close>, and one more ledger row of kind
  \<open>adjustment\<close> is appended with change \<open>0\<close> and previous and new stock \<open>t\<close>.
\<close>

theorem adjust_stock_twice:
  assumes "adjust_stock P t user memo w = (Inr True, w1)"
    and "fault_at w1 (db_calls w1) = None"
    and "fault_at w1 (Suc (db_calls w1)) = None"
    and "fault_at w1 (Suc (Suc (db_calls w1))) = None"
    and "fault_at w1 (Suc (Suc (Suc (db_calls w1)))) = None"
  shows "case adjust_stock P t user' memo' w1 of
           (r, w2) \<Rightarrow>
             r = Inr True \<and>
             products w2 = products w1 \<and>
             map_option stock_quantity (products w2 P) = Some t \<and>
             inventory_transactions w2 = inventory_transactions w1 @
               [\<lparr>txn_product_id = P, txn_transaction_type = ''adjustment'', txn_quantity_change = 0,
                 txn_previous_stock = t, txn_new_stock = t, txn_reference_id = None,
                 txn_notes = memo', txn_user_id = user',
                 txn_transaction_date = db_clock w1 (Suc (Suc (Suc (db_calls w1))))\<rparr>]"
proof -
  from adjust_stock_True [OF assms(1)] obtain p where
    p: "products w1 P = Some p" and s: "stock_quantity p = t" and nonneg: "0 \<le> t" by blast
  define wa where "wa = w1\<lparr>db_calls := Suc (db_calls w1)\<rparr>"
  have f: "fetch_one (select_stock_quantity P) w1 = (Inr (Some t), wa)"
    using p s assms(2) by (simp add: db_defs wa_def)
  have "update_stock P 0 ''adjustment'' user' None memo' wa =
    (True, wa\<lparr>products := (products wa)(P \<mapsto> p\<lparr>stock_quantity := stock_quantity p + 0\<rparr>),
              inventory_transactions := inventory_transactions wa @
                [\<lparr>txn_product_id = P, txn_transaction_type = ''adjustment'', txn_quantity_change = 0,
                  txn_previous_stock = stock_quantity p, txn_new_stock = stock_quantity p + 0,
                  txn_reference_id = None, txn_notes = memo', txn_user_id = user',
                  txn_transaction_date = db_clock wa (Suc (Suc (db_calls wa)))\<rparr>],
              db_calls := Suc (Suc (Suc (db_calls wa)))\<rparr>)"
    using p s nonneg assms(3-5) by (intro update_stock_no_fault) (simp_all add: wa_def)
  with f p s show ?thesis
    by (simp add: adjust_stock_def wa_def fun_upd_idem)
qed

theorem adjust_stock_twice_witness:
  "case adjust_stock 1 3 None (Some ''count'') (snd (adjust_stock 1 3 None (Some ''count'') small_shop)) of
     (r, w2) \<Rightarrow>
       r = Inr True \<and>
       map_option stock_quantity (products w2 1) = Some 3 \<and>
       map txn_quantity_change (inventory_transactions w2) = [- 2, 0]"
proof -
  have first: "adjust_stock 1 3 None (Some ''count'') small_shop =
      (Inr True, snd (adjust_stock 1 3 None (Some ''count'') small_shop))"
    by (simp add: adjust_stock_def update_stock_def db_defs small_shop_def Let_def)
  have w1: "inventory_transactions (snd (adjust_stock 1 3 None (Some ''count'') small_shop)) =
      [\<lparr>txn_product_id = 1, txn_transaction_type = ''adjustment'', txn_quantity_change = - 2,
        txn_previous_stock = 5, txn_new_stock = 3, txn_reference_id = None,
        txn_notes = Some ''count'', txn_user_id = None, txn_transaction_date = new_year_morning\<rparr>]"
    and p1: "products (snd (adjust_stock 1 3 None (Some ''count'') small_shop)) 1 =
      Some \<lparr>p_product_name = ''Rice'', stock_quantity = 3\<rparr>"
    and nf: "fault_at (snd (adjust_stock 1 3 None (Some ''count'') small_shop)) = (\<lambda>k. None)"
    by (simp_all add: adjust_stock_def update_stock_def db_defs small_shop_def Let_def)
  from adjust_stock_twice [OF first, where user' = None and memo' = "Some ''count''"] w1 p1 nf
  show ?thesis by (simp split: prod.splits)
qed

section \<open>The availability check\<close>

lemma check_stock_availability_frame:
  assumes "check_stock_availability pid q w = (ok, w')"
  shows "products w' = products w \<and> inventory_transactions w' = inventory_transactions w \<and>
     sales w' = sales w \<and> sale_items w' = sale_items w \<and>
     sales_auto_increment w' = sales_auto_increment w \<and>
     fault_at w' = fault_at w \<and> db_calls w' = Suc (db_calls w)"
  using assms
  by (auto simp: check_stock_availability_def db_defs split: option.splits db_fault.splits)

lemma check_stock_availability_no_fault:
  assumes "fault_at w (db_calls w) = None"
  shows "check_stock_availability pid q w =
     ((case products w pid of None \<Rightarrow> False | Some p \<Rightarrow> q \<le> stock_quantity p),
      w\<lparr>db_calls := Suc (db_calls w)\<rparr>)"
  using assms
  by (auto simp: check_stock_availability_def db_defs split: option.splits)

lemma check_stock_availability_lacking:
  assumes "case products w pid of None \<Rightarrow> True | Some p \<Rightarrow> stock_quantity p < q"
  shows "fst (check_stock_availability pid q w) = False"
  using assms
  by (auto simp: check_stock_availability_def db_defs split: option.splits db_fault.splits)

lemma check_cart_frame:
  "check_cart cart w = (r, w') \<Longrightarrow>
     products w' = products w \<and> inventory_transactions w' = inventory_transactions w \<and>
     sales w' = sales w \<and> sale_items w' = sale_items w \<and>
     sales_auto_increment w' = sales_auto_increment w"
proof (induction cart arbitrary: w)
  case Nil
  then show ?case by simp
next
  case (Cons item rest)
  obtain ok w1 where c: "check_stock_availability (product_id item) (quantity item) w = (ok, w1)"
    by (cases "check_stock_availability (product_id item) (quantity item) w")
  note f = check_stock_availability_frame [OF c]
  show ?case
  proof (cases ok)
    case True
    with Cons.prems c have "check_cart rest w1 = (r, w')" by simp
    from Cons.IH [OF this] f show ?thesis by simp
  next
    case False
    with Cons.prems c have "w' = w1" by simp
    with f show ?thesis by simp
  qed
qed

lemma check_cart_lacking:
  "\<exists>item \<in> set cart. case products w (product_id item) of None \<Rightarrow> True
                           | Some p \<Rightarrow> stock_quantity p < quantity item \<Longrightarrow>
   \<exists>bad. fst (check_cart cart w) = Some bad"
proof (induction cart arbitrary: w)
  case Nil
  then show ?case by simp
next
  case (Cons item rest)
  obtain ok w1 where c: "check_stock_availability (product_id item) (quantity item) w = (ok, w1)"
    by (cases "check_stock_availability (product_id item) (quantity item) w")
  note f = check_stock_availability_frame [OF c]
  show ?case
  proof (cases ok)
    case False
    with c show ?thesis by simp
  next
    case True
    with c check_stock_availability_lacking [where w = w and pid = "product_id item" and q = "quantity item"]
    have "\<not> (case products w (product_id item) of None \<Rightarrow> True
              | Some p \<Rightarrow> stock_quantity p < quantity item)"
      by auto
    with Cons.prems f
    have "\<exists>item \<in> set rest. case products w1 (product_id item) of None \<Rightarrow> True
                           | Some p \<Rightarrow> stock_quantity p < quantity item"
      by auto
    from Cons.IH [OF this] c True show ?thesis by simp
  qed
qed

text \<open>Without a fault during the checks, the line the loop stops at is the first one
  that lacks stock, and the loop itself prints nothing.\<close>

lemma check_cart_no_fault:
  "check_cart cart w = (Some bad, w') \<Longrightarrow>
   \<forall>k < length cart. fault_at w (db_calls w + k) = None \<Longrightarrow>
   bad \<in> set cart \<and>
   (case products w (product_id bad) of None \<Rightarrow> True | Some p \<Rightarrow> stock_quantity p < quantity bad) \<and>
   stdout w' = stdout w"
proof (induction cart arbitrary: w)
  case Nil
  then show ?case by simp
next
  case (Cons item rest)
  from Cons.prems(2) have nf: "fault_at w (db_calls w) = None" by force
  let ?w1 = "w\<lparr>db_calls := Suc (db_calls w)\<rparr>"
  note c = check_stock_availability_no_fault [OF nf, where pid = "product_id item" and q = "quantity item"]
  show ?case
  proof (cases "case products w (product_id item) of None \<Rightarrow> False | Some p \<Rightarrow> quantity item \<le> stock_quantity p")
    case False
    with Cons.prems(1) c have "bad = item" "w' = ?w1" by simp_all
    with False show ?thesis by (auto split: option.splits)
  next
    case True
    with Cons.prems(1) c have r: "check_cart rest ?w1 = (Some bad, w')" by simp
    from Cons.prems(2) have "\<forall>k < length rest. fault_at ?w1 (db_calls ?w1 + k) = None"
      by (auto dest: spec [where x = "Suc k" for k])
    from Cons.IH [OF r this] show ?thesis by simp
  qed
qed

lemma process_sale_lacking:
  assumes "\<exists>item \<in> set cart. case products w (product_id item) of None \<Rightarrow> True
                           | Some p \<Rightarrow> stock_quantity p < quantity item"
  shows "case process_sale py cfg cart cname cphone discount payment cashier w of
           (r, w') \<Rightarrow>
             r = None \<and>
             products w' = products w \<and> inventory_transactions w' = inventory_transactions w \<and>
             sales w' = sales w \<and> sale_items w' = sale_items w \<and>
             sales_auto_increment w' = sales_auto_increment w \<and>
             ((\<forall>k < length cart. fault_at w (db_calls w + k) = None) \<longrightarrow>
                (\<exists>bad \<in> set cart.
                   (case products w (product_id bad) of None \<Rightarrow> True
                    | Some p \<Rightarrow> stock_quantity p < quantity bad) \<and>
                   stdout w' = stdout w @ [''Insufficient stock for '' @ product_name bad]))"
proof -
  from assms have ne: "cart \<noteq> []" by auto
  from check_cart_lacking [OF assms] obtain bad w1 where
    c: "check_cart cart w = (Some bad, w1)"
    by (cases "check_cart cart w") auto
  from c ne have p: "process_sale py cfg cart cname cphone discount payment cashier w =
      (None, py_print (''Insufficient stock for '' @ product_name bad) w1)"
    by (simp add: process_sale_def)
  from check_cart_frame [OF c] check_cart_no_fault [OF c] p
  show ?thesis by (auto simp: py_print_def)
qed

text \<open>
  C4. When some line of the cart asks for more than the current stock of its product,
  \<open>process_sale\<close> returns \<open>None\<close> and nothing is persisted: products, ledger, sales,
  sale items and the sale counter are as before, whatever the database does. When no
  availability read raises, the one line printed is \<open>Insufficient stock for\<close> followed by
  the name of a cart line that lacks stock (the first such line).
\<close>

theorem process_sale_insufficient_stock:
  assumes "item \<in> set cart"
    and "products w (product_id item) = Some p"
    and "stock_quantity p < quantity item"
  shows "case process_sale py cfg cart cname cphone discount payment cashier w of
           (r, w') \<Rightarrow>
             r = None \<and>
             products w' = products w \<and> inventory_transactions w' = inventory_transactions w \<and>
             sales w' = sales w \<and> sale_items w' = sale_items w \<and>
             sales_auto_increment w' = sales_auto_increment w \<and>
             ((\<forall>k < length cart. fault_at w (db_calls w + k) = None) \<longrightarrow>
                (\<exists>bad \<in> set cart.
                   (case products w (product_id bad) of None \<Rightarrow> True
                    | Some p \<Rightarrow> stock_quantity p < quantity bad) \<and>
                   stdout w' = stdout w @ [''Insufficient stock for '' @ product_name bad]))"
proof -
  from assms have "\<exists>item \<in> set cart. case products w (product_id item) of None \<Rightarrow> True
                           | Some p \<Rightarrow> stock_quantity p < quantity item"
    by (intro bexI [of _ item]) simp_all
  then show ?thesis by (rule process_sale_lacking)
qed

theorem process_sale_insufficient_stock_witness:
  "case process_sale CPython_from_3_12 BUSINESS_CONFIG [two_rice, three_milk] None None (Finite 0) ''cash'' (Some 7) small_shop of
     (r, w') \<Rightarrow>
       r = None \<and> products w' = products small_shop \<and> inventory_transactions w' = [] \<and>
       sales w' = [] \<and> sale_items w' = [] \<and>
       stdout w' = [''Insufficient stock for Milk'']"
proof -
  have "stdout (snd (process_sale CPython_from_3_12 BUSINESS_CONFIG [two_rice, three_milk] None None (Finite 0) ''cash'' (Some 7) small_shop))
      = [''Insufficient stock for Milk'']"
    by (simp add: process_sale_def check_stock_availability_def db_defs small_shop_def
        two_rice_def three_milk_def)
  with process_sale_insufficient_stock [where item = three_milk and cart = "[two_rice, three_milk]"
      and w = small_shop and p = "\<lparr>p_product_name = ''Milk'', stock_quantity = 2\<rparr>"
      and py = CPython_from_3_12 and cfg = BUSINESS_CONFIG and cname = None and cphone = None and discount = "Finite 0"
      and payment = "''cash''" and cashier = "Some 7"]
  show ?thesis
    by (simp add: small_shop_def three_milk_def split: prod.splits)
qed

text \<open>
  C9. For a product id that no row carries, \<open>check_stock_availability\<close> is \<open>False\<close> for
  every requested quantity. A cart with such a line makes \<open>process_sale\<close> return \<open>None\<close>
  with nothing persisted, and the one line it prints when no read raises is the
  \<open>Insufficient stock for\<close> message for a line that lacks stock: there is no separate
  not-found report.
\<close>

theorem process_sale_unknown_product:
  assumes "item \<in> set cart"
    and "products w (product_id item) = None"
  shows "fst (check_stock_availability (product_id item) q w) = False \<and>
     (case process_sale py cfg cart cname cphone discount payment cashier w of
           (r, w') \<Rightarrow>
             r = None \<and>
             products w' = products w \<and> inventory_transactions w' = inventory_transactions w \<and>
             sales w' = sales w \<and> sale_items w' = sale_items w \<and>
             sales_auto_increment w' = sales_auto_increment w \<and>
             ((\<forall>k < length cart. fault_at w (db_calls w + k) = None) \<longrightarrow>
                (\<exists>bad \<in> set cart.
                   (case products w (product_id bad) of None \<Rightarrow> True
                    | Some p \<Rightarrow> stock_quantity p < quantity bad) \<and>
                   stdout w' = stdout w @ [''Insufficient stock for '' @ product_name bad])))"
proof
  from assms(2) show "fst (check_stock_availability (product_id item) q w) = False"
    by (intro check_stock_availability_lacking) simp
next
  from assms have "\<exists>item \<in> set cart. case products w (product_id item) of None \<Rightarrow> True
                           | Some p \<Rightarrow> stock_quantity p < quantity item"
    by (intro bexI [of _ item]) simp_all
  then show "case process_sale py cfg cart cname cphone discount payment cashier w of
           (r, w') \<Rightarrow>
             r = None \<and>
             products w' = products w \<and> inventory_transactions w' = inventory_transactions w \<and>
             sales w' = sales w \<and> sale_items w' = sale_items w \<and>
             sales_auto_increment w' = sales_auto_increment w \<and>
             ((\<forall>k < length cart. fault_at w (db_calls w + k) = None) \<longrightarrow>
                (\<exists>bad \<in> set cart.
                   (case products w (product_id bad) of None \<Rightarrow> True
                    | Some p \<Rightarrow> stock_quantity p < quantity bad) \<and>
                   stdout w' = stdout w @ [''Insufficient stock for '' @ product_name bad]))"
    by (rule process_sale_lacking)
qed

theorem process_sale_unknown_product_witness:
  "fst (check_stock_availability 99 1 small_shop) = False \<and>
   (case process_sale CPython_from_3_12 BUSINESS_CONFIG [ghost_line] None None (Finite 0) ''cash'' (Some 7) small_shop of
     (r, w') \<Rightarrow>
       r = None \<and> products w' = products small_shop \<and> inventory_transactions w' = [] \<and>
       sales w' = [] \<and> sale_items w' = [] \<and>
       stdout w' = [''Insufficient stock for Ghost''])"
  using process_sale_unknown_product [where item = ghost_line and cart = "[ghost_line]"
      and w = small_shop and q = 1
      and py = CPython_from_3_12 and cfg = BUSINESS_CONFIG and cname = None and cphone = None and discount = "Finite 0"
      and payment = "''cash''" and cashier = "Some 7"]
  by (simp add: small_shop_def ghost_line_def split: prod.splits)

section \<open>Sale numbers\<close>

lemma replicate_numeral_unfold: "replicate (numeral k) x = x # replicate (pred_numeral k) x"
  by (simp add: numeral_eq_Suc)

lemmas str_eval = str_int_def str_nat.simps digit_char_def zfill_def format_04d_def
  strftime_Ymd_def strftime_HMS_def replicate_numeral_unfold

lemma generate_sale_number_fallback:
  assumes "fault_at w (db_calls w) = Some f"
  shows "fst (generate_sale_number w) =
     ''SALE-'' @ strftime_Ymd (clock_at w (clock_reads w)) @ ''-'' @
       strftime_HMS (clock_at w (Suc (clock_reads w)))"
  using assms
  by (cases f) (simp_all add: generate_sale_number_def datetime_now_def fetch_one_def py_print_def Let_def)

text \<open>
  C7, with the storing made explicit. When the count query does not raise and \<open>n\<close>
  sales are already dated with the server's current date, the generated number is
  \<open>SALE-\<close>, the date as eight digits, a dash, and \<open>n + 1\<close> padded with zeros to four
  digits. Once that sale has been stored on the same date, as \<open>process_sale\<close> does with
  its insert of the header, the next generation gives \<open>n + 2\<close>. A second generation with
  nothing stored in between gives \<open>n + 1\<close> again.
\<close>

theorem generate_sale_number_counts:
  assumes "fault_at w (db_calls w) = None"
    and "length (filter (\<lambda>s. sql_DATE (s_sale_date s) = sql_DATE (db_clock w (db_calls w))) (sales w)) = n"
  shows "fst (generate_sale_number w) =
       ''SALE-'' @ strftime_Ymd (clock_at w (clock_reads w)) @ ''-'' @ zfill 4 (str_nat (n + 1)) \<and>
     (fault_at w (Suc (db_calls w)) = None \<and> fault_at w (Suc (Suc (db_calls w))) = None \<and>
      sql_DATE (db_clock w (Suc (db_calls w))) = sql_DATE (db_clock w (db_calls w)) \<and>
      sql_DATE (db_clock w (Suc (Suc (db_calls w)))) = sql_DATE (db_clock w (db_calls w)) \<longrightarrow>
      (case generate_sale_number w of
         (number, w1) \<Rightarrow>
           (case execute_query (insert_sale number cname cphone sub tax disc amount payment cashier) w1 of
              (r, w2) \<Rightarrow>
                fst (generate_sale_number w2) =
                  ''SALE-'' @ strftime_Ymd (clock_at w (Suc (clock_reads w))) @ ''-'' @
                    zfill 4 (str_nat (n + 2))))) \<and>
     (fault_at w (Suc (db_calls w)) = None \<and>
      sql_DATE (db_clock w (Suc (db_calls w))) = sql_DATE (db_clock w (db_calls w)) \<longrightarrow>
      fst (generate_sale_number (snd (generate_sale_number w))) =
        ''SALE-'' @ strftime_Ymd (clock_at w (Suc (clock_reads w))) @ ''-'' @ zfill 4 (str_nat (n + 1)))"
proof -
  have nat1: "nat (int m + 1) = m + 1" for m by simp
  have nat2: "nat (int (Suc m) + 1) = m + 2" for m by simp
  have first: "fst (generate_sale_number w) =
       ''SALE-'' @ strftime_Ymd (clock_at w (clock_reads w)) @ ''-'' @ zfill 4 (str_nat (n + 1))"
    and state: "snd (generate_sale_number w) =
       w\<lparr>clock_reads := Suc (clock_reads w), db_calls := Suc (db_calls w)\<rparr>"
    using assms nat1
    by (simp_all add: generate_sale_number_def datetime_now_def fetch_one_def count_sales_today_def
        db_now_def format_04d_def Let_def del: of_nat_Suc)
  have stored: "fault_at w (Suc (db_calls w)) = None \<and> fault_at w (Suc (Suc (db_calls w))) = None \<and>
      sql_DATE (db_clock w (Suc (db_calls w))) = sql_DATE (db_clock w (db_calls w)) \<and>
      sql_DATE (db_clock w (Suc (Suc (db_calls w)))) = sql_DATE (db_clock w (db_calls w)) \<longrightarrow>
      (case generate_sale_number w of
         (number, w1) \<Rightarrow>
           (case execute_query (insert_sale number cname cphone sub tax disc amount payment cashier) w1 of
              (r, w2) \<Rightarrow>
                fst (generate_sale_number w2) =
                  ''SALE-'' @ strftime_Ymd (clock_at w (Suc (clock_reads w))) @ ''-'' @
                    zfill 4 (str_nat (n + 2))))"
    using assms nat2 state
    by (cases "generate_sale_number w")
      (simp add: generate_sale_number_def datetime_now_def fetch_one_def count_sales_today_def
        execute_query_def insert_sale_def db_now_def format_04d_def Let_def del: of_nat_Suc)
  have unstored: "fault_at w (Suc (db_calls w)) = None \<and>
      sql_DATE (db_clock w (Suc (db_calls w))) = sql_DATE (db_clock w (db_calls w)) \<longrightarrow>
      fst (generate_sale_number (snd (generate_sale_number w))) =
        ''SALE-'' @ strftime_Ymd (clock_at w (Suc (clock_reads w))) @ ''-'' @ zfill 4 (str_nat (n + 1))"
    using assms nat1 unfolding state
    by (simp add: generate_sale_number_def datetime_now_def fetch_one_def count_sales_today_def
        db_now_def format_04d_def Let_def del: of_nat_Suc)
  from first stored unstored show ?thesis by (intro conjI)
qed

lemma a_sale_in_march:
  "process_sale CPython_from_3_12 BUSINESS_CONFIG [two_rice] None None (Finite 0) ''cash'' (Some 7) busy_shop =
     (Some 5, snd (process_sale CPython_from_3_12 BUSINESS_CONFIG [two_rice] None None (Finite 0) ''cash'' (Some 7) busy_shop))"
  "map s_sale_number (sales (snd (process_sale CPython_from_3_12 BUSINESS_CONFIG [two_rice] None None (Finite 0) ''cash'' (Some 7) busy_shop)))
     = [''SALE-20240307-0001'', ''SALE-20250207-0001'', ''SALE-20250306-0001'', ''SALE-20250703-0001'',
        ''SALE-20250307-0001'']"
  "map s_sale_date (sales (snd (process_sale CPython_from_3_12 BUSINESS_CONFIG [two_rice] None None (Finite 0) ''cash'' (Some 7) busy_shop)))
     = [march_afternoon\<lparr>year := 2024\<rparr>, march_afternoon\<lparr>month := 2\<rparr>, march_afternoon\<lparr>day := 6\<rparr>,
        march_afternoon\<lparr>month := 7, day := 3\<rparr>, march_afternoon]"
  "fault_at (snd (process_sale CPython_from_3_12 BUSINESS_CONFIG [two_rice] None None (Finite 0) ''cash'' (Some 7) busy_shop)) = (\<lambda>k. None)"
  "db_clock (snd (process_sale CPython_from_3_12 BUSINESS_CONFIG [two_rice] None None (Finite 0) ''cash'' (Some 7) busy_shop)) = (\<lambda>k. march_afternoon)"
  "clock_at (snd (process_sale CPython_from_3_12 BUSINESS_CONFIG [two_rice] None None (Finite 0) ''cash'' (Some 7) busy_shop)) = (\<lambda>k. march_afternoon)"
  by (simp_all add: process_sale_def check_stock_availability_def update_stock_def db_defs
      generate_sale_number_def datetime_now_def count_sales_today_def insert_sale_def
      insert_sale_item_def busy_shop_def small_shop_def stored_sale_def two_rice_def
      march_afternoon_def sql_DATE_def str_eval Let_def)

theorem generate_sale_number_counts_witness:
  "fst (generate_sale_number busy_shop) = ''SALE-20250307-0001'' \<and>
   (case generate_sale_number busy_shop of
      (number, w1) \<Rightarrow>
        (case execute_query (insert_sale number None None (Finite 20) (Finite 0) (Finite 0) (Finite 20)
                               ''cash'' (Some 7)) w1 of
           (r, w2) \<Rightarrow> fst (generate_sale_number w2) = ''SALE-20250307-0002'')) \<and>
   fst (generate_sale_number (snd (generate_sale_number busy_shop))) = ''SALE-20250307-0001'' \<and>
   (case process_sale CPython_from_3_12 BUSINESS_CONFIG [two_rice] None None (Finite 0) ''cash'' (Some 7) busy_shop of
      (r, w1) \<Rightarrow>
        r = Some 5 \<and> s_sale_number (last (sales w1)) = ''SALE-20250307-0001'' \<and>
        fst (generate_sale_number w1) = ''SALE-20250307-0002'')"
proof -
  let ?w1 = "snd (process_sale CPython_from_3_12 BUSINESS_CONFIG [two_rice] None None (Finite 0) ''cash'' (Some 7) busy_shop)"
  have today: "fault_at busy_shop (db_calls busy_shop) = None"
    "length (filter (\<lambda>s. sql_DATE (s_sale_date s) = sql_DATE (db_clock busy_shop (db_calls busy_shop)))
       (sales busy_shop)) = 0"
    by (simp_all add: busy_shop_def small_shop_def stored_sale_def march_afternoon_def sql_DATE_def)
  from generate_sale_number_counts [OF today, where cname = None and cphone = None
      and sub = "Finite 20" and tax = "Finite 0" and disc = "Finite 0" and amount = "Finite 20"
      and payment = "''cash''" and cashier = "Some 7"]
  have a: "fst (generate_sale_number busy_shop) = ''SALE-20250307-0001''"
    and b: "case generate_sale_number busy_shop of
      (number, w1) \<Rightarrow>
        (case execute_query (insert_sale number None None (Finite 20) (Finite 0) (Finite 0) (Finite 20)
                               ''cash'' (Some 7)) w1 of
           (r, w2) \<Rightarrow> fst (generate_sale_number w2) = ''SALE-20250307-0002'')"
    and c: "fst (generate_sale_number (snd (generate_sale_number busy_shop))) = ''SALE-20250307-0001''"
    by (simp_all add: busy_shop_def small_shop_def march_afternoon_def str_eval)
  obtain r1 r2 r3 r4 row where rows: "sales ?w1 = [r1, r2, r3, r4, row]"
    using a_sale_in_march(2) by (auto simp: map_eq_Cons_conv)
  with a_sale_in_march(2,3) have dates:
    "s_sale_date r1 = march_afternoon\<lparr>year := 2024\<rparr>" "s_sale_date r2 = march_afternoon\<lparr>month := 2\<rparr>"
    "s_sale_date r3 = march_afternoon\<lparr>day := 6\<rparr>" "s_sale_date r4 = march_afternoon\<lparr>month := 7, day := 3\<rparr>"
    "s_sale_date row = march_afternoon" "s_sale_number row = ''SALE-20250307-0001''"
    by simp_all
  with rows a_sale_in_march(4,5)
  have "fault_at ?w1 (db_calls ?w1) = None"
    and "length (filter (\<lambda>s. sql_DATE (s_sale_date s) = sql_DATE (db_clock ?w1 (db_calls ?w1))) (sales ?w1)) = 1"
    by (simp_all add: march_afternoon_def sql_DATE_def)
  from generate_sale_number_counts [OF this] a_sale_in_march(6)
  have d: "fst (generate_sale_number ?w1) = ''SALE-20250307-0002''"
    by (simp add: march_afternoon_def str_eval)
  from a b c d a_sale_in_march(1) rows dates show ?thesis
    by (auto split: prod.splits)
qed

text \<open>
  C7 without the storing fails. Two generations in a row on a day without sales both
  give \<open>0001\<close>; the second is not \<open>0002\<close>.
\<close>

theorem generate_sale_number_twice_counterexample:
  "fst (generate_sale_number small_shop) = ''SALE-20250101-0001'' \<and>
   fst (generate_sale_number (snd (generate_sale_number small_shop))) = ''SALE-20250101-0001'' \<and>
   fst (generate_sale_number (snd (generate_sale_number small_shop))) \<noteq> ''SALE-20250101-0002''"
  by (simp add: generate_sale_number_def datetime_now_def fetch_one_def count_sales_today_def
      db_now_def small_shop_def new_year_morning_def sql_DATE_def str_eval Let_def)

text \<open>
  C6. With the database away the count fails and the fallback is \<open>SALE-\<close>, the date,
  a dash and the time of day as \<open>HHMMSS\<close>. Two invocations that read the clock within
  the same second return the same sale number.
\<close>

theorem generate_sale_number_fallback_collides:
  "fst (generate_sale_number database_away) = ''SALE-20250101-093005'' \<and>
   fst (generate_sale_number (snd (generate_sale_number database_away))) = ''SALE-20250101-093005''"
  by (simp add: generate_sale_number_def datetime_now_def fetch_one_def py_print_def Let_def
      database_away_def small_shop_def new_year_morning_def str_eval)

text \<open>
  C5. In a sale of two units of rice where the insert into the ledger raises, the
  header and the sale item are stored and the stock goes from 5 to 3, no ledger row is
  written, and \<open>process_sale\<close> still returns the sale id. When it is the insert of the
  sale item that raises, \<open>process_sale\<close> returns \<open>None\<close> and the header stays.
\<close>

theorem process_sale_swallows_ledger_failure:
  "(case process_sale py BUSINESS_CONFIG [two_rice] None None (Finite 0) ''cash'' (Some 7) ledger_insert_fails of
     (r, w') \<Rightarrow>
       r = Some 1 \<and>
       map s_sale_id (sales w') = [1] \<and>
       map si_product_id (sale_items w') = [1] \<and>
       map_option stock_quantity (products w' 1) = Some 3 \<and>
       inventory_transactions w' = [] \<and>
       stdout w' = [''Database error: Lock wait timeout exceeded'',
                    ''Error updating stock: Lock wait timeout exceeded'']) \<and>
   (case process_sale py BUSINESS_CONFIG [two_rice] None None (Finite 0) ''cash'' (Some 7) item_insert_fails of
     (r, w') \<Rightarrow>
       r = None \<and>
       map s_sale_id (sales w') = [1] \<and>
       sale_items w' = [] \<and>
       map_option stock_quantity (products w' 1) = Some 5 \<and>
       inventory_transactions w' = [] \<and>
       stdout w' = [''Database error: Lock wait timeout exceeded'',
                    ''Error processing sale: Lock wait timeout exceeded''])"
  by (simp add: process_sale_def check_stock_availability_def update_stock_def db_defs
      generate_sale_number_def datetime_now_def count_sales_today_def insert_sale_def
      insert_sale_item_def ledger_insert_fails_def item_insert_fails_def small_shop_def
      two_rice_def Let_def)

section \<open>Rounding to the nearest float\<close>

lemma pow2_powi: "pow2 e = 2 powi e"
  by (simp add: pow2_def power_int_def inverse_eq_divide power_one_over)

lemma pow2_pos: "0 < pow2 e"
  by (simp add: pow2_powi zero_less_power_int)

lemma pow2_add: "pow2 (a + b) = pow2 a * pow2 b"
  by (simp add: pow2_powi power_int_add)

lemma pow2_mono: "a \<le> b \<Longrightarrow> pow2 a \<le> pow2 b"
  by (simp add: pow2_powi power_int_increasing)

lemma pow2_nonneg_int: "0 \<le> e \<Longrightarrow> pow2 e = of_int (2 ^ nat e)"
  by (simp add: pow2_def)

lemma two_power_le_real: "(2::int) ^ n \<le> m \<Longrightarrow> (2::real) ^ n \<le> of_int m"
  by (metis of_int_le_iff of_int_numeral of_int_power)

lemma less_two_power_real: "m < (2::int) ^ n \<Longrightarrow> real_of_int m + 1 \<le> 2 ^ n"
proof -
  assume "m < 2 ^ n"
  then have "m + 1 \<le> 2 ^ n" by simp
  then have "real_of_int (m + 1) \<le> real_of_int (2 ^ n)" by (rule of_int_le_iff [THEN iffD2])
  then show ?thesis by simp
qed

lemma ilog2_bounds:
  assumes "0 < x"
  shows "pow2 (ilog2 x) \<le> x \<and> x < pow2 (ilog2 x + 1)"
proof (cases "1 \<le> x")
  case True
  then have pos: "0 < \<lfloor>x\<rfloor>" by simp
  from bitlen_bounds [OF pos]
  have lo: "(2::int) ^ nat (bitlen \<lfloor>x\<rfloor> - 1) \<le> \<lfloor>x\<rfloor>" and hi: "\<lfloor>x\<rfloor> < 2 ^ nat (bitlen \<lfloor>x\<rfloor>)"
    by simp_all
  from pos have b: "1 \<le> bitlen \<lfloor>x\<rfloor>" by (simp add: bitlen_alt_def)
  have "(2::real) ^ nat (bitlen \<lfloor>x\<rfloor> - 1) \<le> x"
    using two_power_le_real [OF lo] by linarith
  then have l: "pow2 (bitlen \<lfloor>x\<rfloor> - 1) \<le> x"
    using b by (simp add: pow2_def)
  have "x < 2 ^ nat (bitlen \<lfloor>x\<rfloor>)"
    using less_two_power_real [OF hi] by linarith
  then have "x < pow2 (bitlen \<lfloor>x\<rfloor>)"
    using b by (simp add: pow2_def)
  with l True show ?thesis by (simp add: ilog2_def)
next
  case False
  define m where "m = \<lceil>1 / x\<rceil> - 1"
  from False assms have inv: "1 < 1 / x" by simp
  then have mpos: "0 < m" unfolding m_def by linarith
  from bitlen_bounds [OF mpos]
  have lo: "(2::int) ^ nat (bitlen m - 1) \<le> m" and hi: "m < 2 ^ nat (bitlen m)"
    by simp_all
  from mpos have b: "1 \<le> bitlen m" by (simp add: bitlen_alt_def)
  have "1 / x \<le> real_of_int m + 1" unfolding m_def by simp
  with less_two_power_real [OF hi] have "1 / x \<le> 2 ^ nat (bitlen m)" by linarith
  with assms have l: "1 / 2 ^ nat (bitlen m) \<le> x"
    by (simp add: field_simps)
  have "real_of_int m < 1 / x" unfolding m_def by linarith
  with two_power_le_real [OF lo] have "2 ^ nat (bitlen m - 1) < 1 / x" by linarith
  with assms have u: "x < 1 / 2 ^ nat (bitlen m - 1)"
    by (simp add: field_simps)
  have "pow2 (- bitlen m) = 1 / 2 ^ nat (bitlen m)"
    using b by (simp add: pow2_def)
  moreover have "pow2 (- bitlen m + 1) = 1 / 2 ^ nat (bitlen m - 1)"
  proof (cases "bitlen m = 1")
    case True
    then show ?thesis by (simp add: pow2_def)
  next
    case False
    with b have "\<not> 0 \<le> - bitlen m + 1" "nat (- (- bitlen m + 1)) = nat (bitlen m - 1)" by simp_all
    then show ?thesis by (simp add: pow2_def)
  qed
  ultimately show ?thesis
    using l u False by (simp add: ilog2_def m_def)
qed

lemma round_half_even_cases:
  "round_half_even z = \<lfloor>z\<rfloor> \<and> z - of_int \<lfloor>z\<rfloor> \<le> 1 / 2 \<or>
   round_half_even z = \<lfloor>z\<rfloor> + 1 \<and> 1 / 2 \<le> z - of_int \<lfloor>z\<rfloor>"
  by (auto simp: round_half_even_def Let_def)

lemma round_half_even_nearest: "\<bar>z - of_int (round_half_even z)\<bar> \<le> \<bar>z - of_int m\<bar>"
proof -
  have f: "of_int \<lfloor>z\<rfloor> \<le> z" "z < of_int \<lfloor>z\<rfloor> + 1" by linarith+
  consider "m \<le> \<lfloor>z\<rfloor>" | "\<lfloor>z\<rfloor> + 1 \<le> m" by linarith
  then show ?thesis
  proof cases
    case 1
    then have "real_of_int m \<le> of_int \<lfloor>z\<rfloor>" by simp
    with f round_half_even_cases [of z] show ?thesis by auto
  next
    case 2
    then have "real_of_int (\<lfloor>z\<rfloor> + 1) \<le> of_int m" by (rule of_int_le_iff [THEN iffD2])
    with f round_half_even_cases [of z] show ?thesis by auto
  qed
qed

lemma round_half_even_of_int [simp]: "round_half_even (of_int m) = m"
  by (simp add: round_half_even_def)

lemma round_half_even_half: "\<bar>z - of_int (round_half_even z)\<bar> \<le> 1 / 2"
  using round_half_even_cases [of z] by auto

lemma round_half_even_tie:
  "\<bar>z - of_int (round_half_even z)\<bar> = 1 / 2 \<Longrightarrow> even (round_half_even z)"
  by (auto simp: round_half_even_def Let_def split: if_splits)

lemma round_half_even_mono:
  assumes "y \<le> z"
  shows "round_half_even y \<le> round_half_even z"
proof (cases "\<lfloor>y\<rfloor> = \<lfloor>z\<rfloor>")
  case True
  with assms show ?thesis
    by (auto simp: round_half_even_def Let_def)
next
  case False
  with assms have "\<lfloor>y\<rfloor> + 1 \<le> \<lfloor>z\<rfloor>"
    using floor_mono [OF assms] by linarith
  with round_half_even_cases [of y] round_half_even_cases [of z] show ?thesis by auto
qed

lemma rnd64_zero [simp]: "rnd64 0 = 0"
  by (simp add: rnd64_def)

text \<open>The rounded value is a nearest multiple of the unit in the last place.\<close>

lemma rnd64_nearest_multiple:
  "\<bar>x - rnd64 x\<bar> \<le> \<bar>x - of_int m * pow2 (quantum_exp x)\<bar>"
proof (cases "x = 0")
  case True
  then show ?thesis by simp
next
  case False
  define g where "g = pow2 (quantum_exp x)"
  have g: "0 < g" by (simp add: g_def pow2_pos)
  have r: "rnd64 x = of_int (round_half_even (x / g)) * g"
    using False by (simp add: rnd64_def g_def)
  have scale: "x - of_int i * g = g * (x / g - of_int i)" for i :: int
    using g by (simp add: field_simps)
  have "\<bar>x - rnd64 x\<bar> = g * \<bar>x / g - of_int (round_half_even (x / g))\<bar>"
    using g by (simp only: r scale abs_mult)
  also have "\<dots> \<le> g * \<bar>x / g - of_int m\<bar>"
    using g round_half_even_nearest [of "x / g" m] by (simp add: mult_left_mono)
  also have "\<dots> = \<bar>x - of_int m * g\<bar>"
    using g by (simp only: scale abs_mult)
  finally show ?thesis by (simp add: g_def)
qed

lemma pow2_53: "pow2 53 = 9007199254740992"
  by (simp add: pow2_def)

lemma pow2_52: "pow2 52 = 4503599627370496"
  by (simp add: pow2_def)

text \<open>It is as near to \<open>x\<close> as any float: any \<open>n \<sqdot> 2\<^sup>j\<close> with at most 53 bits in \<open>n\<close>
  and \<open>j\<close> not below the subnormal exponent.\<close>

lemma rnd64_nearest:
  assumes j: "- 1074 \<le> j" and n: "\<bar>n\<bar> \<le> 9007199254740992"
  shows "\<bar>x - rnd64 x\<bar> \<le> \<bar>x - of_int n * pow2 j\<bar>"
proof (cases "x = 0")
  case True
  then show ?thesis by simp
next
  case False
  define k where "k = quantum_exp x"
  define e where "e = ilog2 \<bar>x\<bar>"
  have k_def': "k = max (e - 52) (- 1074)" by (simp add: k_def e_def quantum_exp_def)
  show ?thesis
  proof (cases "k \<le> j")
    case True
    then have "pow2 j = pow2 (j - k) * pow2 k"
      by (simp add: pow2_add [symmetric])
    also from True have "pow2 (j - k) = of_int (2 ^ nat (j - k))"
      by (simp add: pow2_nonneg_int)
    finally have p: "pow2 j = of_int (2 ^ nat (j - k)) * pow2 k" .
    have eq: "of_int n * pow2 j = of_int (n * 2 ^ nat (j - k)) * pow2 k"
      by (simp only: p of_int_mult mult.assoc)
    from rnd64_nearest_multiple [of x "n * 2 ^ nat (j - k)"]
    show ?thesis by (simp only: eq k_def)
  next
    case False
    with j k_def' have ke: "k = e - 52" by simp
    from False have "53 + j \<le> k + 52" by simp
    then have "pow2 (53 + j) \<le> pow2 (k + 52)" by (rule pow2_mono)
    moreover have "pow2 (k + 52) = pow2 e" by (simp add: ke)
    moreover have "pow2 e \<le> \<bar>x\<bar>"
      using ilog2_bounds [of "\<bar>x\<bar>"] \<open>x \<noteq> 0\<close> by (simp add: e_def)
    moreover have "\<bar>real_of_int n * pow2 j\<bar> \<le> pow2 (53 + j)"
    proof -
      have "\<bar>real_of_int n\<bar> \<le> pow2 53"
        using n by (simp add: pow2_53)
      then have "\<bar>real_of_int n\<bar> * pow2 j \<le> pow2 53 * pow2 j"
        using pow2_pos [of j] by (simp add: mult_right_mono)
      then show ?thesis
        using pow2_pos [of j] by (simp add: abs_mult pow2_add)
    qed
    ultimately have d: "\<bar>real_of_int n * pow2 j\<bar> \<le> pow2 e" and xe: "pow2 e \<le> \<bar>x\<bar>"
      by simp_all
    have b: "pow2 e = of_int 4503599627370496 * pow2 k"
      by (simp add: ke pow2_add [symmetric] pow2_52 [symmetric])
    show ?thesis
    proof (cases "0 < x")
      case True
      from rnd64_nearest_multiple [of x 4503599627370496] b
      have "\<bar>x - rnd64 x\<bar> \<le> \<bar>x - pow2 e\<bar>" by (simp add: k_def)
      with d xe True show ?thesis by linarith
    next
      case neg: False
      from rnd64_nearest_multiple [of x "- 4503599627370496"] b
      have "\<bar>x - rnd64 x\<bar> \<le> \<bar>x + pow2 e\<bar>" by (simp add: k_def)
      with d xe neg \<open>x \<noteq> 0\<close> show ?thesis by linarith
    qed
  qed
qed

text \<open>And it is itself such a value.\<close>

lemma rnd64_representable:
  "\<exists>n j. rnd64 x = of_int n * pow2 j \<and> - 1074 \<le> j \<and> \<bar>n\<bar> \<le> 9007199254740992"
proof (cases "x = 0")
  case True
  then show ?thesis by (intro exI [of _ 0] exI [of _ "0::int"]) simp
next
  case False
  define k where "k = quantum_exp x"
  define e where "e = ilog2 \<bar>x\<bar>"
  have k_lo: "- 1074 \<le> k" and k_e: "e + 1 \<le> k + 53"
    by (simp_all add: k_def e_def quantum_exp_def)
  have "\<bar>x\<bar> < pow2 (e + 1)"
    using ilog2_bounds [of "\<bar>x\<bar>"] False by (simp add: e_def)
  also have "\<dots> \<le> pow2 (k + 53)" using k_e by (rule pow2_mono)
  also have "\<dots> = pow2 k * 9007199254740992" by (simp add: pow2_add pow2_53)
  finally have "\<bar>x\<bar> / pow2 k < 9007199254740992"
    using pow2_pos [of k] by (simp add: field_simps)
  then have "- 9007199254740992 \<le> x / pow2 k" "x / pow2 k \<le> 9007199254740992"
    using pow2_pos [of k] by (simp_all add: abs_if field_simps split: if_splits)
  then have "round_half_even (of_int (- 9007199254740992)) \<le> round_half_even (x / pow2 k)"
    "round_half_even (x / pow2 k) \<le> round_half_even (of_int 9007199254740992)"
    by (simp_all add: round_half_even_mono)
  then have "\<bar>round_half_even (x / pow2 k)\<bar> \<le> 9007199254740992"
    unfolding round_half_even_of_int by simp
  moreover have "rnd64 x = of_int (round_half_even (x / pow2 k)) * pow2 k"
    using False by (simp add: rnd64_def k_def)
  ultimately show ?thesis using k_lo by blast
qed

lemma rnd64_fixes:
  assumes "- 1074 \<le> j" and "\<bar>n\<bar> \<le> 9007199254740992"
  shows "rnd64 (of_int n * pow2 j) = of_int n * pow2 j"
  using rnd64_nearest [OF assms, of "of_int n * pow2 j"] by simp

lemma rnd64_idem [simp]: "rnd64 (rnd64 x) = rnd64 x"
  using rnd64_representable [of x] rnd64_fixes by auto

lemma rnd64_one [simp]: "rnd64 1 = 1"
  using rnd64_fixes [of 0 1] by (simp add: pow2_def)




section \<open>Order and validity of float results\<close>

lemma to_double_not_NaN [simp]: "to_double x \<noteq> NaN"
  by (simp add: to_double_def Let_def)




lemma to_double_valid [simp]: "valid_double (to_double x)"
  by (auto simp: valid_double_def is_float_def to_double_def Let_def)

lemma valid_double_simps [simp]:
  "valid_double (Finite a) = is_float a" "valid_double PosInf" "valid_double NegInf" "valid_double NaN"
  by (simp_all add: valid_double_def)

lemma is_float_zero [simp]: "is_float 0"
  using pow2_pos [of 1024] by (simp add: is_float_def to_double_def Let_def)

lemma to_double_zero [simp]: "to_double 0 = Finite 0"
  using is_float_zero by (simp add: is_float_def)

lemma to_double_one [simp]: "to_double 1 = Finite 1"
proof -
  have "(1::real) < pow2 1024"
    using pow2_mono [of 0 1024] pow2_pos [of 1024] by (simp add: pow2_def)
  then show ?thesis
    using pow2_pos [of 1024] by (simp add: to_double_def Let_def)
qed

lemma float_add_valid [simp]: "valid_double (float_add a b)"
  by (cases a; cases b) simp_all












lemma float_mul_rate_zero [simp]: "float_mul (Finite 0) (Finite r) = Finite 0"
  by simp








section \<open>A discount outside the range from 0 to 100\<close>










section \<open>The totals calculator\<close>

lemmas float_eval = to_double_def rnd64_def quantum_exp_def ilog2_def pow2_def
  round_half_even_def Let_def float_literal_def compute_bitlen

lemmas totals_eval = calculate_totals_def py_sum_def float_sub_def BUSINESS_CONFIG_def float_eval

lemma round_half_even_zero [simp]: "round_half_even 0 = 0"
  by (simp add: round_half_even_def)

lemma CartItem_subtotal:
  assumes "CartItem pid name code price qty = Some item"
  shows "subtotal item = float_mul price (to_double (of_int qty)) \<and> unit_price item = price \<and>
     quantity item = qty"
  using assms
  by (auto simp: CartItem_def float_of_int_def split: option.splits double.splits)

text \<open>
  C3, with the rounding that the code performs. For a cart whose lines are what
  \<open>CartItem\<close> builds, on either interpreter, the outputs are the specification's
  formulas in float arithmetic (subtotal the interpreter's \<open>sum\<close> of unit price times
  quantity, discount the subtotal times percent over 100, tax the discounted amount
  times the configured rate, which is the float 0.12, total their sum), each rounded by
  Python's \<open>round(x, 2)\<close>: the float nearest to \<open>k / 100\<close>, where \<open>k\<close> is the integer
  nearest to a hundred times the exact value of the float, a tie going to the even \<open>k\<close>.
  For the cart of two units at 10.00 and one unit at 5.00 with a discount of 10 percent
  that is 25.00, 2.50, 2.70 and 25.20.
\<close>

theorem calculate_totals_formula:
  assumes "\<forall>item \<in> set cart.
     CartItem (product_id item) (product_name item) (barcode item) (unit_price item) (quantity item)
       = Some item"
  shows "calculate_totals py cfg cart dp =
     (let sub = py_sum py (map (\<lambda>item. float_mul (unit_price item) (to_double (of_int (quantity item)))) cart);
          discount_amount = float_mul sub (float_div_literal dp 100);
          taxable_amount = float_sub sub discount_amount;
          tax_amount = float_mul taxable_amount (tax_rate cfg);
          total = float_add taxable_amount tax_amount
      in \<lparr>t_subtotal = py_round2 sub, t_discount_percent = dp,
          t_discount_amount = py_round2 discount_amount, t_tax_amount = py_round2 tax_amount,
          t_total_amount = py_round2 total\<rparr>) \<and>
     tax_rate BUSINESS_CONFIG = float_literal (12 / 100) \<and>
     py_round2 (Finite x) = to_double (of_int (round_half_even (x * 100)) / 100) \<and>
     \<bar>x * 100 - of_int (round_half_even (x * 100))\<bar> \<le> 1 / 2 \<and>
     (\<bar>x * 100 - of_int (round_half_even (x * 100))\<bar> = 1 / 2 \<longrightarrow> even (round_half_even (x * 100))) \<and>
     calculate_totals py BUSINESS_CONFIG [two_rice, one_milk] (Finite 10) =
       \<lparr>t_subtotal = Finite 25, t_discount_percent = Finite 10, t_discount_amount = Finite (5 / 2),
        t_tax_amount = float_literal (270 / 100), t_total_amount = float_literal (2520 / 100)\<rparr>"
proof -
  have m: "map subtotal cart =
      map (\<lambda>item. float_mul (unit_price item) (to_double (of_int (quantity item)))) cart"
    using assms by (intro map_cong refl) (auto dest!: bspec dest: CartItem_subtotal)
  have "calculate_totals py cfg cart dp =
     (let sub = py_sum py (map (\<lambda>item. float_mul (unit_price item) (to_double (of_int (quantity item)))) cart);
          discount_amount = float_mul sub (float_div_literal dp 100);
          taxable_amount = float_sub sub discount_amount;
          tax_amount = float_mul taxable_amount (tax_rate cfg);
          total = float_add taxable_amount tax_amount
      in \<lparr>t_subtotal = py_round2 sub, t_discount_percent = dp,
          t_discount_amount = py_round2 discount_amount, t_tax_amount = py_round2 tax_amount,
          t_total_amount = py_round2 total\<rparr>)"
    unfolding calculate_totals_def m by (rule refl)
  moreover have "tax_rate BUSINESS_CONFIG = float_literal (12 / 100)"
    by (simp add: BUSINESS_CONFIG_def)
  moreover have "py_round2 (Finite x) = to_double (of_int (round_half_even (x * 100)) / 100)"
    by simp
  moreover have "calculate_totals py BUSINESS_CONFIG [two_rice, one_milk] (Finite 10) =
       \<lparr>t_subtotal = Finite 25, t_discount_percent = Finite 10, t_discount_amount = Finite (5 / 2),
        t_tax_amount = float_literal (270 / 100), t_total_amount = float_literal (2520 / 100)\<rparr>"
    by (cases py) (simp_all add: two_rice_def one_milk_def totals_eval)
  ultimately show ?thesis
    using round_half_even_half [of "x * 100"] round_half_even_tie [of "x * 100"]
    by blast
qed

text \<open>The witness is a cart of 0.05, 0.10 and 1.80 at 50 percent, where the two
  interpreters sum differently: 0.98 up to 3.11 and 0.97 from 3.12 on.\<close>

theorem calculate_totals_formula_witness:
  "calculate_totals CPython_upto_3_11 BUSINESS_CONFIG [candy_line, gum_line, soap_line] (Finite 50) =
     \<lparr>t_subtotal = float_literal (195 / 100), t_discount_percent = Finite 50,
      t_discount_amount = float_literal (98 / 100),
      t_tax_amount = float_literal (12 / 100), t_total_amount = float_literal (109 / 100)\<rparr> \<and>
   calculate_totals CPython_from_3_12 BUSINESS_CONFIG [candy_line, gum_line, soap_line] (Finite 50) =
     \<lparr>t_subtotal = float_literal (195 / 100), t_discount_percent = Finite 50,
      t_discount_amount = float_literal (97 / 100),
      t_tax_amount = float_literal (12 / 100), t_total_amount = float_literal (109 / 100)\<rparr> \<and>
   py_round2 (Finite (1 / 8)) = float_literal (12 / 100)"
proof -
  have built: "\<forall>item \<in> set [candy_line, gum_line, soap_line].
     CartItem (product_id item) (product_name item) (barcode item) (unit_price item) (quantity item)
       = Some item"
    by (simp add: candy_line_def gum_line_def soap_line_def CartItem_def float_of_int_def float_eval)
  have lines: "map (\<lambda>item. float_mul (unit_price item) (to_double (of_int (quantity item))))
      [candy_line, gum_line, soap_line] =
      [Finite (3602879701896397 / 72057594037927936), Finite (3602879701896397 / 36028797018963968),
       Finite (8106479329266893 / 4503599627370496)]"
    by (simp add: candy_line_def gum_line_def soap_line_def float_eval)
  have old: "py_sum CPython_upto_3_11
      [Finite (3602879701896397 / 72057594037927936), Finite (3602879701896397 / 36028797018963968),
       Finite (8106479329266893 / 4503599627370496)] = Finite (2195504818343117 / 1125899906842624)"
    by (simp add: py_sum_def float_eval)
  have new: "py_sum CPython_from_3_12
      [Finite (3602879701896397 / 72057594037927936), Finite (3602879701896397 / 36028797018963968),
       Finite (8106479329266893 / 4503599627370496)] = Finite (8782019273372467 / 4503599627370496)"
    by (simp add: py_sum_def float_sub_def float_eval)
  from calculate_totals_formula [OF built, of CPython_upto_3_11 BUSINESS_CONFIG "Finite 50" "1 / 8"]
    calculate_totals_formula [OF built, of CPython_from_3_12 BUSINESS_CONFIG "Finite 50" "1 / 8"]
  show ?thesis
    unfolding lines old new
    by (simp add: BUSINESS_CONFIG_def float_sub_def float_eval)
qed

text \<open>
  C3 with schoolbook rounding fails on ties. One loaf at 12.50 with a discount of 1
  percent gives the discount 0.125 exactly: the code returns 0.12 on either
  interpreter, rounding half away from zero gives 0.13.
\<close>

theorem calculate_totals_standard_rounding_counterexample:
  "t_discount_amount (calculate_totals CPython_upto_3_11 BUSINESS_CONFIG [bread_line] (Finite 1)) =
     float_literal (12 / 100) \<and>
   t_discount_amount (calculate_totals CPython_from_3_12 BUSINESS_CONFIG [bread_line] (Finite 1)) =
     float_literal (12 / 100) \<and>
   t_discount_amount (spec_calculate_totals CPython_upto_3_11 BUSINESS_CONFIG [bread_line] (Finite 1)) =
     float_literal (13 / 100) \<and>
   t_discount_amount (spec_calculate_totals CPython_from_3_12 BUSINESS_CONFIG [bread_line] (Finite 1)) =
     float_literal (13 / 100) \<and>
   float_literal (12 / 100) \<noteq> float_literal (13 / 100)"
proof -
  have a: "t_discount_amount (calculate_totals py BUSINESS_CONFIG [bread_line] (Finite 1)) =
      Finite (1080863910568919 / 9007199254740992)" for py
    by (cases py) (simp_all add: bread_line_def totals_eval)
  have b: "t_discount_amount (spec_calculate_totals py BUSINESS_CONFIG [bread_line] (Finite 1)) =
      Finite (1170935903116329 / 9007199254740992)" for py
    by (cases py)
      (simp_all add: spec_calculate_totals_def spec_standard_round2_def bread_line_def py_sum_def
        float_eval)
  have c: "float_literal (12 / 100) = Finite (1080863910568919 / 9007199254740992)"
    "float_literal (13 / 100) = Finite (1170935903116329 / 9007199254740992)"
    by (simp_all add: float_eval)
  show ?thesis unfolding a b c by simp
qed




end
